theory Spec2Isabelle
  imports Main
begin

section \<open>The run-time library the service relies on\<close>

text \<open>
  \<^verbatim>\<open>src/services/mockDb.ts\<close> keeps its data in module-level arrays and reads the
  clock, the random number generator and the \<^verbatim>\<open>Date\<close> class of the JavaScript run
  time. The arrays become an explicit store that every operation takes and returns;
  the clock (\<^verbatim>\<open>Date.now()\<close>), the random strings (\<^verbatim>\<open>Math.random().toString(36)\<close>),
  the local time zone and the engine's own reading of date strings are arguments of
  the operations that read them.
  \<^verbatim>\<open>await delay(ms)\<close> is the first statement of every operation and nothing is
  awaited after it, so the rest of each body runs without interruption: an
  operation is a function from the store to a result and a store.

  Numbers that the service only counts with or compares (\<^verbatim>\<open>maxPlayers\<close>, scores,
  the two counters, the loop bound) are \<^typ>\<open>int\<close>; \<^verbatim>\<open>undefined\<close> and \<^verbatim>\<open>NaN\<close> are
  \<^term>\<open>None\<close>.
\<close>

subsection \<open>Time values (ECMAScript, Date objects)\<close>

text \<open>
  A \<^verbatim>\<open>Date\<close> object holds a time value: integral milliseconds since the epoch, or
  \<^verbatim>\<open>NaN\<close> for an invalid date. The functions below are the abstract operations of
  the language standard under their standard names.
\<close>

type_synonym timevalue = "int option"

definition msPerDay :: int where
  "msPerDay = 86400000"

definition Day :: "int \<Rightarrow> int" where
  "Day t = t div msPerDay"

definition TimeWithinDay :: "int \<Rightarrow> int" where
  "TimeWithinDay t = t mod msPerDay"

definition DaysInYear :: "int \<Rightarrow> int" where
  "DaysInYear y =
     (if y mod 4 \<noteq> 0 then 365
      else if y mod 100 \<noteq> 0 then 366
      else if y mod 400 \<noteq> 0 then 365
      else 366)"

definition DayFromYear :: "int \<Rightarrow> int" where
  "DayFromYear y =
     365 * (y - 1970) + (y - 1969) div 4 - (y - 1901) div 100 + (y - 1601) div 400"

text \<open>
  The standard defines \<open>YearFromTime t\<close> as the largest \<open>y\<close> whose first day is not
  after \<open>t\<close>. It is computed here from the mean length of a year, corrected by one
  where the estimate is off (lemmas \<open>YearFromDay_bounds\<close> and \<open>YearFromDay_unique\<close>
  below).
\<close>

definition YearFromDay :: "int \<Rightarrow> int" where
  "YearFromDay d =
     (let y = 1970 + (400 * d) div 146097 in
      if d < DayFromYear y then y - 1
      else if DayFromYear (y + 1) \<le> d then y + 1
      else y)"

definition YearFromTime :: "int \<Rightarrow> int" where
  "YearFromTime t = YearFromDay (Day t)"

definition InLeapYear :: "int \<Rightarrow> bool" where
  "InLeapYear t = (DaysInYear (YearFromTime t) = 366)"

definition DayWithinYear :: "int \<Rightarrow> int" where
  "DayWithinYear t = Day t - DayFromYear (YearFromTime t)"

text \<open>
  \<open>monthStart m leap\<close> is the number of days of the year before month \<open>m\<close>
  (0 is January): the table behind \<open>MonthFromTime\<close> and \<open>DateFromTime\<close>.
\<close>

definition monthStart :: "int \<Rightarrow> bool \<Rightarrow> int" where
  "monthStart m leap =
     (if m \<le> 0 then 0
      else if m = 1 then 31
      else (if leap then 1 else 0) +
        (if m = 2 then 59 else if m = 3 then 90 else if m = 4 then 120
         else if m = 5 then 151 else if m = 6 then 181 else if m = 7 then 212
         else if m = 8 then 243 else if m = 9 then 273 else if m = 10 then 304
         else if m = 11 then 334 else 365))"

definition MonthFromTime :: "int \<Rightarrow> int" where
  "MonthFromTime t =
     (let d = DayWithinYear t; l = InLeapYear t in
      if d < monthStart 1 l then 0
      else if d < monthStart 2 l then 1
      else if d < monthStart 3 l then 2
      else if d < monthStart 4 l then 3
      else if d < monthStart 5 l then 4
      else if d < monthStart 6 l then 5
      else if d < monthStart 7 l then 6
      else if d < monthStart 8 l then 7
      else if d < monthStart 9 l then 8
      else if d < monthStart 10 l then 9
      else if d < monthStart 11 l then 10
      else 11)"

definition DateFromTime :: "int \<Rightarrow> int" where
  "DateFromTime t = DayWithinYear t - monthStart (MonthFromTime t) (InLeapYear t) + 1"

definition HourFromTime :: "int \<Rightarrow> int" where
  "HourFromTime t = (t div 3600000) mod 24"

definition MinFromTime :: "int \<Rightarrow> int" where
  "MinFromTime t = (t div 60000) mod 60"

definition SecFromTime :: "int \<Rightarrow> int" where
  "SecFromTime t = (t div 1000) mod 60"

definition msFromTime :: "int \<Rightarrow> int" where
  "msFromTime t = t mod 1000"

definition MakeTime :: "int \<Rightarrow> int \<Rightarrow> int \<Rightarrow> int \<Rightarrow> int" where
  "MakeTime h m s ms = h * 3600000 + m * 60000 + s * 1000 + ms"

text \<open>
  \<open>MakeDay year month date\<close>: the day number of the first of the month (months beyond
  0..11 carry into the year), plus \<open>date - 1\<close>.
\<close>

definition MakeDay :: "int \<Rightarrow> int \<Rightarrow> int \<Rightarrow> int" where
  "MakeDay year month dt =
     (let ym = year + month div 12; mn = month mod 12 in
      DayFromYear ym + monthStart mn (DaysInYear ym = 366) + dt - 1)"

definition MakeDate :: "int \<Rightarrow> int \<Rightarrow> int" where
  "MakeDate day time = day * msPerDay + time"

definition TimeClip :: "int \<Rightarrow> timevalue" where
  "TimeClip t = (if \<bar>t\<bar> > 8640000000000000 then None else Some t)"

text \<open>
  The local time zone is the offset \<open>LocalTZA t isUTC\<close> of the standard, in
  milliseconds: the offset in force at the UTC instant \<open>t\<close> when \<open>isUTC\<close>, at the local
  time \<open>t\<close> otherwise. It is an argument, since it belongs to the machine.
\<close>

type_synonym timezone = "int \<Rightarrow> bool \<Rightarrow> int"

definition LocalTime :: "timezone \<Rightarrow> int \<Rightarrow> int" where
  "LocalTime tz t = t + tz t True"

definition UTC :: "timezone \<Rightarrow> int \<Rightarrow> int" where
  "UTC tz t = t - tz t False"

subsection \<open>Strings of digits\<close>

definition digit_of :: "char \<Rightarrow> int option" where
  "digit_of c = map_of (zip ''0123456789'' [0, 1, 2, 3, 4, 5, 6, 7, 8, 9]) c"

fun digits_of :: "int \<Rightarrow> string \<Rightarrow> int option" where
  "digits_of acc [] = Some acc"
| "digits_of acc (c # cs) =
     (case digit_of c of None \<Rightarrow> None | Some d \<Rightarrow> digits_of (10 * acc + d) cs)"

definition digit_char :: "int \<Rightarrow> char" where
  "digit_char d = ''0123456789'' ! nat (d mod 10)"

definition pad2 :: "int \<Rightarrow> string" where
  "pad2 n = [digit_char (n div 10), digit_char n]"

definition pad3 :: "int \<Rightarrow> string" where
  "pad3 n = digit_char (n div 100) # pad2 n"

definition pad4 :: "int \<Rightarrow> string" where
  "pad4 n = pad2 (n div 100) @ pad2 n"

definition pad6 :: "int \<Rightarrow> string" where
  "pad6 n = pad2 (n div 10000) @ pad4 n"

subsection \<open>Parsing and printing dates\<close>

text \<open>
  \<^verbatim>\<open>new Date(s)\<close> on a string. The standard fixes what two forms of its date-time
  format mean, the two that the service builds: \<^verbatim>\<open>YYYY-MM-DD\<close> is read as UTC and
  \<^verbatim>\<open>YYYY-MM-DDTHH:mm\<close> as local time, with the month in 1..12, the day within its
  month, the hour in 0..23 and the minute in 0..59. Every other string (the further
  forms of the format, and whatever an engine accepts beyond it, a day past the end
  of its month for one) is read as the run time at hand reads it: \<open>fb s\<close> is the
  time value that its parser gives for such a string \<open>s\<close>, \<^verbatim>\<open>NaN\<close> when it takes \<open>s\<close> for
  no date. Like the clock and the time zone, \<open>fb\<close> is an argument. The constructor
  clips what the parser gives.
\<close>

type_synonym fallback = "string \<Rightarrow> int option"

definition parseYMD :: "string \<Rightarrow> int option" where
  "parseYMD s =
     (if length s = 10 \<and> s ! 4 = CHR ''-'' \<and> s ! 7 = CHR ''-'' then
        (case (digits_of 0 (take 4 s), digits_of 0 (take 2 (drop 5 s)),
               digits_of 0 (drop 8 s)) of
           (Some y, Some m, Some d) \<Rightarrow>
             if 1 \<le> m \<and> m \<le> 12 \<and> 1 \<le> d \<and>
                d \<le> monthStart m (DaysInYear y = 366) - monthStart (m - 1) (DaysInYear y = 366)
             then Some (MakeDay y (m - 1) d)
             else None
         | _ \<Rightarrow> None)
      else None)"

definition parseHM :: "string \<Rightarrow> int option" where
  "parseHM s =
     (if length s = 5 \<and> s ! 2 = CHR '':'' then
        (case (digits_of 0 (take 2 s), digits_of 0 (drop 3 s)) of
           (Some h, Some m) \<Rightarrow>
             if h \<le> 23 \<and> m \<le> 59 then Some (MakeTime h m 0 0) else None
         | _ \<Rightarrow> None)
      else None)"

definition clipped :: "int option \<Rightarrow> timevalue" where
  "clipped v = (case v of None \<Rightarrow> None | Some t \<Rightarrow> TimeClip t)"

definition Date_parse :: "fallback \<Rightarrow> timezone \<Rightarrow> string \<Rightarrow> timevalue" where
  "Date_parse fb tz s =
     (case parseYMD s of
        Some day \<Rightarrow> TimeClip (MakeDate day 0)
      | None \<Rightarrow>
          if length s = 16 \<and> s ! 10 = CHR ''T'' then
            (case (parseYMD (take 10 s), parseHM (drop 11 s)) of
               (Some day, Some time) \<Rightarrow> TimeClip (UTC tz (MakeDate day time))
             | _ \<Rightarrow> clipped (fb s))
          else clipped (fb s))"

text \<open>\<^verbatim>\<open>d.getDate()\<close>: the day of the month in local time, \<^verbatim>\<open>NaN\<close> for an invalid date.\<close>

definition getDate :: "timezone \<Rightarrow> timevalue \<Rightarrow> int option" where
  "getDate tz tv = (case tv of None \<Rightarrow> None | Some t \<Rightarrow> Some (DateFromTime (LocalTime tz t)))"

text \<open>\<^verbatim>\<open>d.setDate(dt)\<close>: the time value that \<^verbatim>\<open>d\<close> holds afterwards.\<close>

definition setDate :: "timezone \<Rightarrow> timevalue \<Rightarrow> int option \<Rightarrow> timevalue" where
  "setDate tz tv dt =
     (case tv of
        None \<Rightarrow> None
      | Some t0 \<Rightarrow>
         (case dt of
            None \<Rightarrow> None
          | Some d \<Rightarrow>
             (let t = LocalTime tz t0;
                  newDate = MakeDate (MakeDay (YearFromTime t) (MonthFromTime t) d) (TimeWithinDay t)
              in TimeClip (UTC tz newDate))))"

text \<open>
  \<^verbatim>\<open>d.toISOString()\<close>: \<^verbatim>\<open>YYYY-MM-DDTHH:mm:ss.sssZ\<close> in UTC, with a sign and six digits
  for a year outside 0..9999; it throws a RangeError on an invalid date
  (\<^term>\<open>None\<close> here).
\<close>

definition isoYear :: "int \<Rightarrow> string" where
  "isoYear y =
     (if 0 \<le> y \<and> y \<le> 9999 then pad4 y
      else if y < 0 then CHR ''-'' # pad6 (- y)
      else CHR ''+'' # pad6 y)"

definition toISOString :: "timevalue \<Rightarrow> string option" where
  "toISOString tv =
     (case tv of
        None \<Rightarrow> None
      | Some t \<Rightarrow>
          Some (isoYear (YearFromTime t) @ ''-'' @ pad2 (MonthFromTime t + 1) @ ''-'' @
                pad2 (DateFromTime t) @ ''T'' @ pad2 (HourFromTime t) @ '':'' @
                pad2 (MinFromTime t) @ '':'' @ pad2 (SecFromTime t) @ ''.'' @
                pad3 (msFromTime t) @ ''Z''))"

text \<open>\<^verbatim>\<open>s.split('T')[0]\<close>: the part of \<open>s\<close> before its first \<^verbatim>\<open>T\<close>.\<close>

definition split_T_0 :: "string \<Rightarrow> string" where
  "split_T_0 s = takeWhile (\<lambda>c. c \<noteq> CHR ''T'') s"

section \<open>The data model (\<^verbatim>\<open>types.ts\<close>)\<close>

datatype ClubRole = Admin | Member

record ClubMember =
  clubId :: string
  userId :: string
  role :: ClubRole
  joinedAt :: string
  matchesPlayed :: int
  matchesWon :: int

datatype SessionStatus = OPEN | FULL | COMPLETED

text \<open>
  \<^verbatim>\<open>startTime\<close> and \<^verbatim>\<open>endTime\<close> are declared \<^verbatim>\<open>string\<close>, but \<^verbatim>\<open>createSession\<close> stores
  \<^verbatim>\<open>data.startTime!\<close>, and the \<^verbatim>\<open>!\<close> is erased at compile time: the field holds
  \<^verbatim>\<open>undefined\<close> (\<^term>\<open>None\<close>) when the caller left it out. The field \<^verbatim>\<open>id\<close> is \<open>id_s\<close>
  here and \<^verbatim>\<open>clubId\<close> is \<open>clubId_s\<close>; the optional \<^verbatim>\<open>price\<close> is never read or written.
\<close>

record Session =
  id_s :: string
  clubId_s :: string
  date :: string
  startTime :: "string option"
  endTime :: "string option"
  courtNumber :: string
  maxPlayers :: int
  registeredPlayerIds :: "string list"
  status :: SessionStatus

text \<open>The fields of \<^verbatim>\<open>Partial<Session>\<close> that \<^verbatim>\<open>createSession\<close> reads; each may be absent.\<close>

record SessionData =
  date_opt :: "string option"
  startTime_opt :: "string option"
  endTime_opt :: "string option"
  courtNumber_opt :: "string option"
  maxPlayers_opt :: "int option"

datatype Winner = WinnerA | WinnerB

text \<open>\<^verbatim>\<open>Omit<Match, 'id' | 'timestamp'>\<close>, and \<^verbatim>\<open>Match\<close> as its extension by the two fields.\<close>

record MatchData =
  sessionId :: string
  teamA :: "string list"
  teamB :: "string list"
  scoreA :: int
  scoreB :: int
  winner :: Winner

record Match = MatchData +
  id_m :: string
  timestamp :: string

text \<open>
  The store: the arrays \<^verbatim>\<open>MEMBERS\<close>, \<^verbatim>\<open>SESSIONS\<close> and \<^verbatim>\<open>MATCHES\<close>. (\<^verbatim>\<open>USERS\<close> and \<^verbatim>\<open>CLUBS\<close>
  are neither read nor written by the operations below.)
\<close>

record db =
  MEMBERS :: "ClubMember list"
  SESSIONS :: "Session list"
  MATCHES :: "Match list"

text \<open>What an operation throws: \<^verbatim>\<open>new Error(msg)\<close>, or the run time's RangeError.\<close>

datatype error = Error string | RangeError string

section \<open>Session lifecycle (\<^verbatim>\<open>mockDb.ts\<close>)\<close>

text \<open>
  \<^verbatim>\<open>SESSIONS.find(s => s.id === sessionId)\<close> yields the first matching object of the
  array itself, so the assignments that follow change that element in place:
  \<open>update_first\<close> rewrites the first element that satisfies the predicate. The
  parameters \<^verbatim>\<open>sessionId\<close> and \<^verbatim>\<open>userId\<close> are \<open>sid\<close> and \<open>uid\<close> below.
\<close>

fun update_first :: "('a \<Rightarrow> bool) \<Rightarrow> ('a \<Rightarrow> 'a) \<Rightarrow> 'a list \<Rightarrow> 'a list" where
  "update_first P f [] = []"
| "update_first P f (x # xs) = (if P x then f x # xs else x # update_first P f xs)"

definition joinSession :: "db \<Rightarrow> string \<Rightarrow> string \<Rightarrow> (error + Session) \<times> db" where
  "joinSession db sid uid =
     (case find (\<lambda>s. id_s s = sid) (SESSIONS db) of
        None \<Rightarrow> (Inl (Error ''Session not found''), db)
      | Some session \<Rightarrow>
          if uid \<in> set (registeredPlayerIds session) then (Inr session, db)
          else if int (length (registeredPlayerIds session)) \<ge> maxPlayers session
          then (Inl (Error ''Session full''), db)
          else
            (let session1 = session\<lparr>registeredPlayerIds := registeredPlayerIds session @ [uid]\<rparr>;
                 session2 = (if int (length (registeredPlayerIds session1)) \<ge> maxPlayers session1
                             then session1\<lparr>status := FULL\<rparr> else session1)
             in (Inr session2,
                 db\<lparr>SESSIONS := update_first (\<lambda>s. id_s s = sid) (\<lambda>_. session2) (SESSIONS db)\<rparr>)))"

text \<open>\<^verbatim>\<open>a + b\<close> on strings, where \<^verbatim>\<open>b\<close> may be \<^verbatim>\<open>undefined\<close>.\<close>

definition str_of :: "string option \<Rightarrow> string" where
  "str_of v = (case v of None \<Rightarrow> ''undefined'' | Some s \<Rightarrow> s)"

text \<open>\<^verbatim>\<open>a < b\<close> on numbers, where \<^verbatim>\<open>a\<close> may be \<^verbatim>\<open>NaN\<close>: false then.\<close>

definition num_lt :: "int option \<Rightarrow> int \<Rightarrow> bool" where
  "num_lt a b = (case a of None \<Rightarrow> False | Some x \<Rightarrow> x < b)"

text \<open>\<^verbatim>\<open>new Date(session.date + 'T' + session.startTime)\<close>, the start instant of a session.\<close>

definition sessionDate :: "fallback \<Rightarrow> timezone \<Rightarrow> Session \<Rightarrow> timevalue" where
  "sessionDate fb tz session = Date_parse fb tz (date session @ ''T'' @ str_of (startTime session))"

definition leaveSession :: "fallback \<Rightarrow> timezone \<Rightarrow> int \<Rightarrow> db \<Rightarrow> string \<Rightarrow> string
    \<Rightarrow> (error + Session) \<times> db" where
  "leaveSession fb tz now db sid uid =
     (case find (\<lambda>s. id_s s = sid) (SESSIONS db) of
        None \<Rightarrow> (Inl (Error ''Session not found''), db)
      | Some session \<Rightarrow>
          if num_lt (sessionDate fb tz session) now
          then (Inl (Error ''Cannot leave past session''), db)
          else
            (let session1 = session\<lparr>registeredPlayerIds :=
                               filter (\<lambda>i. i \<noteq> uid) (registeredPlayerIds session)\<rparr>;
                 session2 = (if status session1 = FULL then session1\<lparr>status := OPEN\<rparr>
                             else session1)
             in (Inr session2,
                 db\<lparr>SESSIONS := update_first (\<lambda>s. id_s s = sid) (\<lambda>_. session2) (SESSIONS db)\<rparr>)))"

text \<open>\<^verbatim>\<open>s.substr(2, 9)\<close> and \<^verbatim>\<open>a + b\<close> on numbers that may be \<^verbatim>\<open>NaN\<close>.\<close>

definition substr_2_9 :: "string \<Rightarrow> string" where
  "substr_2_9 s = take 9 (drop 2 s)"

definition num_add :: "int option \<Rightarrow> int \<Rightarrow> int option" where
  "num_add a b = (case a of None \<Rightarrow> None | Some x \<Rightarrow> Some (x + b))"

text \<open>
  The body of the loop of \<^verbatim>\<open>createSession\<close> up to the construction of \<^verbatim>\<open>newSession\<close>;
  \<open>rnd i\<close> is the string \<^verbatim>\<open>Math.random().toString(36)\<close> of iteration \<open>i\<close>.
  \<^verbatim>\<open>new Date(baseDate)\<close> copies the time value of \<^verbatim>\<open>baseDate\<close>, \<^verbatim>\<open>toISOString\<close> throws on
  an invalid date, and \<^verbatim>\<open>x || d\<close> yields \<^verbatim>\<open>d\<close> when \<^verbatim>\<open>x\<close> is \<^verbatim>\<open>undefined\<close>, the empty
  string, \<^verbatim>\<open>NaN\<close> or 0.
\<close>

definition newSession :: "timezone \<Rightarrow> (int \<Rightarrow> string) \<Rightarrow> string \<Rightarrow> SessionData \<Rightarrow> timevalue \<Rightarrow> int
    \<Rightarrow> error + Session" where
  "newSession tz rnd cid data baseDate i =
     (let currentDate = setDate tz baseDate (num_add (getDate tz baseDate) (i * 7)) in
      case toISOString currentDate of
        None \<Rightarrow> Inl (RangeError ''Invalid time value'')
      | Some isoString \<Rightarrow>
          Inr \<lparr> id_s = ''s'' @ substr_2_9 (rnd i),
                clubId_s = cid,
                date = split_T_0 isoString,
                startTime = startTime_opt data,
                endTime = endTime_opt data,
                courtNumber = (case courtNumber_opt data of
                                 None \<Rightarrow> ''TBD''
                               | Some c \<Rightarrow> if c = [] then ''TBD'' else c),
                maxPlayers = (case maxPlayers_opt data of
                                None \<Rightarrow> 8
                              | Some n \<Rightarrow> if n = 0 then 8 else n),
                registeredPlayerIds = [],
                status = OPEN \<rparr>)"

text \<open>
  The loop itself, \<open>mk\<close> being its body up to \<^verbatim>\<open>newSession\<close>: each session made is
  pushed to \<^verbatim>\<open>SESSIONS\<close> and to \<^verbatim>\<open>createdSessions\<close>; an exception leaves the loop with
  what has been pushed so far.
\<close>

function createSession_loop :: "(int \<Rightarrow> error + Session) \<Rightarrow> int \<Rightarrow> int \<Rightarrow> Session list \<Rightarrow> db
    \<Rightarrow> (error + Session list) \<times> db" where
  "createSession_loop mk recurrenceWeeks i createdSessions db =
     (if i < recurrenceWeeks then
        (case mk i of
           Inl e \<Rightarrow> (Inl e, db)
         | Inr s \<Rightarrow>
             createSession_loop mk recurrenceWeeks (i + 1) (createdSessions @ [s])
               (db\<lparr>SESSIONS := SESSIONS db @ [s]\<rparr>))
      else (Inr createdSessions, db))"
  by pat_completeness auto
termination
  by (relation "measure (\<lambda>(mk, n, i, cs, db). nat (n - i))") auto

definition createSession :: "fallback \<Rightarrow> timezone \<Rightarrow> (int \<Rightarrow> string) \<Rightarrow> db \<Rightarrow> string \<Rightarrow> SessionData
    \<Rightarrow> int \<Rightarrow> (error + Session list) \<times> db" where
  "createSession fb tz rnd db cid data recurrenceWeeks =
     (let baseDate = (case date_opt data of None \<Rightarrow> None | Some s \<Rightarrow> Date_parse fb tz s) in
      createSession_loop (newSession tz rnd cid data baseDate) recurrenceWeeks 0 [] db)"

section \<open>Match recording\<close>

text \<open>
  \<^verbatim>\<open>recordMatch\<close>: \<open>rnd\<close> is \<^verbatim>\<open>Math.random().toString(36)\<close> and \<open>ts\<close> is
  \<^verbatim>\<open>new Date().toISOString()\<close> at the call. It has no \<^verbatim>\<open>throw\<close>.
\<close>

definition bump :: "string \<Rightarrow> string list \<Rightarrow> string list \<Rightarrow> ClubMember \<Rightarrow> ClubMember" where
  "bump cid allPlayers winningTeam m =
     (if clubId m = cid \<and> userId m \<in> set allPlayers then
        (let m1 = m\<lparr>matchesPlayed := matchesPlayed m + 1\<rparr> in
         if userId m1 \<in> set winningTeam then m1\<lparr>matchesWon := matchesWon m1 + 1\<rparr> else m1)
      else m)"

definition recordMatch :: "string \<Rightarrow> string \<Rightarrow> db \<Rightarrow> MatchData \<Rightarrow> Match \<times> db" where
  "recordMatch rnd ts db matchData =
     (let newMatch = \<lparr> sessionId = sessionId matchData, teamA = teamA matchData,
                       teamB = teamB matchData, scoreA = scoreA matchData,
                       scoreB = scoreB matchData, winner = winner matchData,
                       id_m = ''m'' @ substr_2_9 rnd, timestamp = ts \<rparr>;
          db1 = db\<lparr>MATCHES := MATCHES db @ [newMatch]\<rparr>;
          allPlayers = teamA matchData @ teamB matchData;
          winningTeam = (if winner matchData = WinnerA then teamA matchData else teamB matchData)
      in case find (\<lambda>s. id_s s = sessionId matchData) (SESSIONS db1) of
           None \<Rightarrow> (newMatch, db1)
         | Some session \<Rightarrow>
             (newMatch,
              db1\<lparr>MEMBERS := map (bump (clubId_s session) allPlayers winningTeam) (MEMBERS db1)\<rparr>))"

text \<open>
  \<^verbatim>\<open>MatchRecorder.submitMatch\<close> (the caller of \<^verbatim>\<open>recordMatch\<close>): it reads the
  component's \<^verbatim>\<open>teamA\<close>, \<^verbatim>\<open>teamB\<close>, \<^verbatim>\<open>scoreA\<close>, \<^verbatim>\<open>scoreB\<close> and the session shown. On equal
  scores it shows an alert and returns; otherwise it derives the winner and records.
  (What it does to the component alone, \<^verbatim>\<open>setIsSubmitting\<close> and \<^verbatim>\<open>onRecord\<close>, is left
  out.)
\<close>

datatype submitted = Alert string | Recorded Match

definition submitMatch :: "string \<Rightarrow> string \<Rightarrow> db \<Rightarrow> Session \<Rightarrow> string list \<Rightarrow> string list \<Rightarrow> int \<Rightarrow> int
    \<Rightarrow> submitted \<times> db" where
  "submitMatch rnd ts db session tA tB sA sB =
     (if sA = sB then (Alert ''Matches cannot end in a draw'', db)
      else
        (let (m, db') = recordMatch rnd ts db
               \<lparr> sessionId = id_s session, teamA = tA, teamB = tB, scoreA = sA, scoreB = sB,
                 winner = (if sA > sB then WinnerA else WinnerB) \<rparr>
         in (Recorded m, db')))"

section \<open>Sequences of calls, and the seed data\<close>

text \<open>
  A caller issues \<^verbatim>\<open>joinSession\<close> and \<^verbatim>\<open>leaveSession\<close> in any order, on any session and
  for any user; a call that throws leaves the store as it was and the next call
  proceeds. \<open>Leave\<close> carries the value of \<^verbatim>\<open>Date.now()\<close> at its call.
\<close>

datatype roster_op = Join string string | Leave int string string

fun apply_op :: "fallback \<Rightarrow> timezone \<Rightarrow> db \<Rightarrow> roster_op \<Rightarrow> db" where
  "apply_op fb tz db (Join sid uid) = snd (joinSession db sid uid)"
| "apply_op fb tz db (Leave now sid uid) = snd (leaveSession fb tz now db sid uid)"

definition run_ops :: "fallback \<Rightarrow> timezone \<Rightarrow> db \<Rightarrow> roster_op list \<Rightarrow> db" where
  "run_ops fb tz db ops = foldl (apply_op fb tz) db ops"

text \<open>A sequence of \<^verbatim>\<open>recordMatch\<close> calls, each with its random string and timestamp.\<close>

definition run_records :: "db \<Rightarrow> (string \<times> string \<times> MatchData) list \<Rightarrow> db" where
  "run_records db calls = foldl (\<lambda>d (rnd, ts, md). snd (recordMatch rnd ts d md)) db calls"

text \<open>What a session looks like after a join or a leave that went through.\<close>

definition joined :: "string \<Rightarrow> Session \<Rightarrow> Session" where
  "joined uid s =
     s\<lparr>registeredPlayerIds := registeredPlayerIds s @ [uid],
       status := (if int (length (registeredPlayerIds s)) + 1 \<ge> maxPlayers s then FULL
                  else status s)\<rparr>"

definition left :: "string \<Rightarrow> Session \<Rightarrow> Session" where
  "left uid s =
     s\<lparr>registeredPlayerIds := filter (\<lambda>i. i \<noteq> uid) (registeredPlayerIds s),
       status := (if status s = FULL then OPEN else status s)\<rparr>"

definition within_capacity :: "Session \<Rightarrow> bool" where
  "within_capacity s = (int (length (registeredPlayerIds s)) \<le> maxPlayers s)"

definition won_le_played :: "ClubMember \<Rightarrow> bool" where
  "won_le_played m = (matchesWon m \<le> matchesPlayed m)"

text \<open>
  The arrays as \<^verbatim>\<open>mockDb.ts\<close> initialises them. The dates of the two sessions are
  computed from the clock when the module loads (the day after, the day before):
  \<open>tomorrow\<close> and \<open>yesterday\<close> stand for the two strings. The timestamps of the two
  seed matches are likewise \<open>ts1\<close> and \<open>ts2\<close>.
\<close>

definition MEMBERS_0 :: "ClubMember list" where
  "MEMBERS_0 =
     [\<lparr>clubId = ''c1'', userId = ''u1'', role = Admin, joinedAt = ''2023-01-01'',
        matchesPlayed = 45, matchesWon = 30\<rparr>,
      \<lparr>clubId = ''c1'', userId = ''u2'', role = Member, joinedAt = ''2023-02-15'',
        matchesPlayed = 20, matchesWon = 8\<rparr>,
      \<lparr>clubId = ''c1'', userId = ''u3'', role = Member, joinedAt = ''2023-03-10'',
        matchesPlayed = 40, matchesWon = 35\<rparr>,
      \<lparr>clubId = ''c1'', userId = ''u4'', role = Member, joinedAt = ''2023-04-05'',
        matchesPlayed = 10, matchesWon = 2\<rparr>,
      \<lparr>clubId = ''c1'', userId = ''u5'', role = Member, joinedAt = ''2023-05-20'',
        matchesPlayed = 15, matchesWon = 7\<rparr>,
      \<lparr>clubId = ''c2'', userId = ''u1'', role = Member, joinedAt = ''2023-06-01'',
        matchesPlayed = 5, matchesWon = 5\<rparr>]"

definition session_s1 :: "string \<Rightarrow> Session" where
  "session_s1 tomorrow =
     \<lparr>id_s = ''s1'', clubId_s = ''c1'', date = tomorrow, startTime = Some ''19:00'',
       endTime = Some ''21:00'', courtNumber = ''1 & 2'', maxPlayers = 8,
       registeredPlayerIds = [''u1'', ''u2'', ''u3'', ''u4'', ''u5''], status = OPEN\<rparr>"

definition session_s2 :: "string \<Rightarrow> Session" where
  "session_s2 yesterday =
     \<lparr>id_s = ''s2'', clubId_s = ''c1'', date = yesterday, startTime = Some ''18:00'',
       endTime = Some ''20:00'', courtNumber = ''4'', maxPlayers = 6,
       registeredPlayerIds = [''u1'', ''u3'', ''u5'', ''u2''], status = COMPLETED\<rparr>"

definition SESSIONS_0 :: "string \<Rightarrow> string \<Rightarrow> Session list" where
  "SESSIONS_0 tomorrow yesterday = [session_s1 tomorrow, session_s2 yesterday]"

definition MATCHES_0 :: "string \<Rightarrow> string \<Rightarrow> Match list" where
  "MATCHES_0 ts1 ts2 =
     [\<lparr>sessionId = ''s2'', teamA = [''u1'', ''u3''], teamB = [''u5'', ''u2''], scoreA = 21,
        scoreB = 15, winner = WinnerA, id_m = ''m1'', timestamp = ts1\<rparr>,
      \<lparr>sessionId = ''s2'', teamA = [''u1'', ''u2''], teamB = [''u3'', ''u5''], scoreA = 18,
        scoreB = 21, winner = WinnerB, id_m = ''m2'', timestamp = ts2\<rparr>]"

text \<open>
  The store on a machine whose clock read 2024-01-01T12:00:00Z when the module
  loaded, and the time zone UTC.
\<close>

definition s1_0 :: Session where
  "s1_0 = session_s1 ''2024-01-02''"

definition s2_0 :: Session where
  "s2_0 = session_s2 ''2023-12-31''"

definition db_0 :: db where
  "db_0 = \<lparr> MEMBERS = MEMBERS_0,
            SESSIONS = SESSIONS_0 ''2024-01-02'' ''2023-12-31'',
            MATCHES = MATCHES_0 ''2023-12-31T12:00:00.000Z'' ''2023-12-31T12:06:40.000Z'' \<rparr>"

definition tz_UTC :: timezone where
  "tz_UTC = (\<lambda>t isUTC. 0)"

text \<open>
  An engine that takes no string outside the two forms for a date. It is consulted
  below for the empty string only, which engines read as an invalid date.
\<close>

definition fb_none :: fallback where
  "fb_none = (\<lambda>s. None)"

text \<open>
  The seed store after \<^verbatim>\<open>u6\<close>, \<^verbatim>\<open>u7\<close> and \<^verbatim>\<open>u8\<close> have joined session \<^verbatim>\<open>s1\<close>: eight of
  eight places taken.
\<close>

definition s1_full :: Session where
  "s1_full =
     \<lparr>id_s = ''s1'', clubId_s = ''c1'', date = ''2024-01-02'', startTime = Some ''19:00'',
       endTime = Some ''21:00'', courtNumber = ''1 & 2'', maxPlayers = 8,
       registeredPlayerIds = [''u1'', ''u2'', ''u3'', ''u4'', ''u5'', ''u6'', ''u7'', ''u8''],
       status = FULL\<rparr>"

definition db_full :: db where
  "db_full = run_ops fb_none tz_UTC db_0 [Join ''s1'' ''u6'', Join ''s1'' ''u7'', Join ''s1'' ''u8'']"

text \<open>The object \<^verbatim>\<open>newMatch\<close> that \<^verbatim>\<open>recordMatch\<close> builds, stores and returns.\<close>

definition match_of :: "string \<Rightarrow> string \<Rightarrow> MatchData \<Rightarrow> Match" where
  "match_of rnd ts matchData =
     \<lparr> sessionId = sessionId matchData, teamA = teamA matchData, teamB = teamB matchData,
       scoreA = scoreA matchData, scoreB = scoreB matchData, winner = winner matchData,
       id_m = ''m'' @ substr_2_9 rnd, timestamp = ts \<rparr>"

text \<open>
  Two results recorded in session \<^verbatim>\<open>s1\<close> of the seed store (club \<^verbatim>\<open>c1\<close>): \<^verbatim>\<open>u1\<close> and
  \<^verbatim>\<open>u3\<close> beat \<^verbatim>\<open>u2\<close> and the guest \<^verbatim>\<open>g7\<close> 21 to 10, then lose to \<^verbatim>\<open>u4\<close> and \<^verbatim>\<open>u5\<close> 18 to
  21. The third names a session that the store does not hold.
\<close>

definition md_1 :: MatchData where
  "md_1 = \<lparr> sessionId = ''s1'', teamA = [''u1'', ''u3''], teamB = [''u2'', ''g7''],
            scoreA = 21, scoreB = 10, winner = WinnerA \<rparr>"

definition md_2 :: MatchData where
  "md_2 = \<lparr> sessionId = ''s1'', teamA = [''u1'', ''u3''], teamB = [''u4'', ''u5''],
            scoreA = 18, scoreB = 21, winner = WinnerB \<rparr>"

definition md_3 :: MatchData where
  "md_3 = \<lparr> sessionId = ''s9'', teamA = [''u1''], teamB = [''u2''],
            scoreA = 21, scoreB = 10, winner = WinnerA \<rparr>"

definition calls_12 :: "(string \<times> string \<times> MatchData) list" where
  "calls_12 = [(''0.k3j9x0q2ab1'', ''2024-01-01T12:00:00.000Z'', md_1),
               (''0.7fd1m2c9zzq'', ''2024-01-01T12:20:00.000Z'', md_2)]"

text \<open>The seed store with the capacity of the completed session \<^verbatim>\<open>s2\<close> lowered to its four players.\<close>

definition s2_small :: Session where
  "s2_small = s2_0\<lparr>maxPlayers := 4\<rparr>"

definition db_small :: db where
  "db_small = db_0\<lparr>SESSIONS := [s1_0, s2_small]\<rparr>"


text \<open>
  The object \<^verbatim>\<open>newSession\<close> of iteration \<open>i\<close> of \<^verbatim>\<open>createSession\<close>, given the date string
  computed for it.
\<close>

definition made_session :: "(int \<Rightarrow> string) \<Rightarrow> string \<Rightarrow> SessionData \<Rightarrow> int \<Rightarrow> string \<Rightarrow> Session" where
  "made_session rnd cid data i dateString =
     \<lparr> id_s = ''s'' @ substr_2_9 (rnd i),
       clubId_s = cid,
       date = dateString,
       startTime = startTime_opt data,
       endTime = endTime_opt data,
       courtNumber = (case courtNumber_opt data of
                        None \<Rightarrow> ''TBD''
                      | Some c \<Rightarrow> if c = [] then ''TBD'' else c),
       maxPlayers = (case maxPlayers_opt data of
                       None \<Rightarrow> 8
                     | Some n \<Rightarrow> if n = 0 then 8 else n),
       registeredPlayerIds = [],
       status = OPEN \<rparr>"

text \<open>
  Templates for \<^verbatim>\<open>createSession\<close>: the one of the specification's scenario; one without
  the two times; one without the date; one whose date is the empty string of an
  empty form field; one with \<^verbatim>\<open>maxPlayers\<close> 0. And a sequence of random strings.
\<close>

definition data_1 :: SessionData where
  "data_1 = \<lparr> date_opt = Some ''2024-01-01'', startTime_opt = Some ''19:00'',
              endTime_opt = Some ''21:00'', courtNumber_opt = None, maxPlayers_opt = None \<rparr>"

definition data_no_times :: SessionData where
  "data_no_times = \<lparr> date_opt = Some ''2024-01-01'', startTime_opt = None,
                     endTime_opt = None, courtNumber_opt = None, maxPlayers_opt = None \<rparr>"

definition data_no_date :: SessionData where
  "data_no_date = \<lparr> date_opt = None, startTime_opt = Some ''19:00'',
                    endTime_opt = Some ''21:00'', courtNumber_opt = None, maxPlayers_opt = None \<rparr>"

definition data_empty_date :: SessionData where
  "data_empty_date = \<lparr> date_opt = Some '''', startTime_opt = Some ''19:00'',
                       endTime_opt = Some ''21:00'', courtNumber_opt = None, maxPlayers_opt = None \<rparr>"


definition rnd_0 :: "int \<Rightarrow> string" where
  "rnd_0 i = (if i = 0 then ''0.k3j9x0q2ab1'' else if i = 1 then ''0.7fd1m2c9zzq''
              else ''0.p0o9i8u7y6t'')"

text \<open>
  A time zone with a daylight-saving change: one hour ahead of UTC until
  2024-03-31T01:00Z (02:00 local time), two hours ahead from then on.
\<close>

definition tz_DST :: timezone where
  "tz_DST t isUTC =
     (if isUTC then (if t < 1711846800000 then 3600000 else 7200000)
      else (if t < 1711850400000 then 3600000 else 7200000))"

definition data_march :: SessionData where
  "data_march = \<lparr> date_opt = Some ''2024-03-25'', startTime_opt = Some ''19:00'',
                  endTime_opt = Some ''21:00'', courtNumber_opt = None, maxPlayers_opt = None \<rparr>"

text \<open>
  The store of the specification's ledger scenario: \<^verbatim>\<open>u1\<close> and \<^verbatim>\<open>u2\<close> are members of club
  \<^verbatim>\<open>c1\<close> with no match played, and the club has session \<^verbatim>\<open>s1\<close>.
\<close>

definition db_fresh :: db where
  "db_fresh =
     \<lparr> MEMBERS =
         [\<lparr>clubId = ''c1'', userId = ''u1'', role = Admin, joinedAt = ''2023-01-01'',
            matchesPlayed = 0, matchesWon = 0\<rparr>,
          \<lparr>clubId = ''c1'', userId = ''u2'', role = Member, joinedAt = ''2023-02-15'',
            matchesPlayed = 0, matchesWon = 0\<rparr>],
       SESSIONS = [s1_0],
       MATCHES = [] \<rparr>"

section \<open>Properties\<close>

lemmas seed_defs = SESSIONS_0_def session_s1_def session_s2_def s1_0_def s2_0_def

lemma db_0_sessions: "SESSIONS db_0 = [s1_0, s2_0]"
  by (simp add: db_0_def seed_defs)

subsection \<open>The store under join and leave\<close>

lemma length_update_first: "length (update_first P f xs) = length xs"
  by (induction xs) auto

lemma update_first_nth:
  "i < length xs \<Longrightarrow>
     update_first P f xs ! i = xs ! i \<or>
     (find P xs = Some (xs ! i) \<and> update_first P f xs ! i = f (xs ! i))"
proof (induction xs arbitrary: i)
  case Nil
  then show ?case by simp
next
  case (Cons x xs)
  show ?case
  proof (cases i)
    case 0
    then show ?thesis by simp
  next
    case (Suc j)
    with Cons.prems have "j < length xs" by simp
    from Cons.IH [OF this] Suc show ?thesis by auto
  qed
qed

lemma find_update_first:
  "find P xs = Some x \<Longrightarrow> P y \<Longrightarrow> find P (update_first P (\<lambda>_. y) xs) = Some y"
  by (induction xs) (auto split: if_splits)

lemma find_Some_P: "find P xs = Some x \<Longrightarrow> P x"
  by (induction xs) (auto split: if_splits)

lemma joinSession_None:
  "find (\<lambda>s. id_s s = sid) (SESSIONS db) = None \<Longrightarrow>
   joinSession db sid uid = (Inl (Error ''Session not found''), db)"
  by (simp add: joinSession_def)

lemma leaveSession_None:
  "find (\<lambda>s. id_s s = sid) (SESSIONS db) = None \<Longrightarrow>
   leaveSession fb tz now db sid uid = (Inl (Error ''Session not found''), db)"
  by (simp add: leaveSession_def)

lemma joinSession_Some:
  assumes "find (\<lambda>s. id_s s = sid) (SESSIONS db) = Some s"
  shows "joinSession db sid uid =
     (if uid \<in> set (registeredPlayerIds s) then (Inr s, db)
      else if int (length (registeredPlayerIds s)) \<ge> maxPlayers s
      then (Inl (Error ''Session full''), db)
      else (Inr (joined uid s),
            db\<lparr>SESSIONS := update_first (\<lambda>s. id_s s = sid) (\<lambda>_. joined uid s) (SESSIONS db)\<rparr>))"
  using assms by (simp add: joinSession_def joined_def Let_def)

lemma leaveSession_Some:
  assumes "find (\<lambda>s. id_s s = sid) (SESSIONS db) = Some s"
  shows "leaveSession fb tz now db sid uid =
     (if num_lt (sessionDate fb tz s) now then (Inl (Error ''Cannot leave past session''), db)
      else (Inr (left uid s),
            db\<lparr>SESSIONS := update_first (\<lambda>s. id_s s = sid) (\<lambda>_. left uid s) (SESSIONS db)\<rparr>))"
  using assms by (simp add: leaveSession_def left_def Let_def)

lemma joinSession_length:
  "length (SESSIONS (snd (joinSession db sid uid))) = length (SESSIONS db)"
  by (simp add: joinSession_def Let_def length_update_first split: option.splits)

lemma leaveSession_length:
  "length (SESSIONS (snd (leaveSession fb tz now db sid uid))) = length (SESSIONS db)"
  by (simp add: leaveSession_def Let_def length_update_first split: option.splits)

lemma joinSession_nth:
  assumes "i < length (SESSIONS db)"
  shows "SESSIONS (snd (joinSession db sid uid)) ! i = SESSIONS db ! i \<or>
         (uid \<notin> set (registeredPlayerIds (SESSIONS db ! i)) \<and>
          int (length (registeredPlayerIds (SESSIONS db ! i))) < maxPlayers (SESSIONS db ! i) \<and>
          SESSIONS (snd (joinSession db sid uid)) ! i = joined uid (SESSIONS db ! i))"
proof (cases "find (\<lambda>s. id_s s = sid) (SESSIONS db)")
  case None
  then show ?thesis by (simp add: joinSession_None)
next
  case (Some s)
  from update_first_nth [OF assms, of "\<lambda>s. id_s s = sid" "\<lambda>_. joined uid s"] Some
  show ?thesis
    by (auto simp: joinSession_Some [OF Some])
qed

lemma leaveSession_nth:
  assumes "i < length (SESSIONS db)"
  shows "SESSIONS (snd (leaveSession fb tz now db sid uid)) ! i = SESSIONS db ! i \<or>
         (\<not> num_lt (sessionDate fb tz (SESSIONS db ! i)) now \<and>
          SESSIONS (snd (leaveSession fb tz now db sid uid)) ! i = left uid (SESSIONS db ! i))"
proof (cases "find (\<lambda>s. id_s s = sid) (SESSIONS db)")
  case None
  then show ?thesis by (simp add: leaveSession_None)
next
  case (Some s)
  from update_first_nth [OF assms, of "\<lambda>s. id_s s = sid" "\<lambda>_. left uid s"] Some
  show ?thesis
    by (auto simp: leaveSession_Some [OF Some])
qed

lemma apply_op_length: "length (SESSIONS (apply_op fb tz db x)) = length (SESSIONS db)"
  by (cases x) (simp_all add: joinSession_length leaveSession_length)

lemma run_ops_length: "length (SESSIONS (run_ops fb tz db ops)) = length (SESSIONS db)"
  unfolding run_ops_def
  by (induction ops arbitrary: db) (simp_all add: apply_op_length)

subsection \<open>Capacity\<close>

lemma joinSession_capacity:
  assumes "i < length (SESSIONS db)" and "within_capacity (SESSIONS db ! i)"
  shows "within_capacity (SESSIONS (snd (joinSession db sid uid)) ! i)"
  using joinSession_nth [OF assms(1), where uid = uid and sid = sid] assms(2)
  by (auto simp: within_capacity_def joined_def)

lemma leaveSession_capacity:
  assumes "i < length (SESSIONS db)" and "within_capacity (SESSIONS db ! i)"
  shows "within_capacity (SESSIONS (snd (leaveSession fb tz now db sid uid)) ! i)"
proof -
  have "int (length (filter (\<lambda>i. i \<noteq> uid) (registeredPlayerIds (SESSIONS db ! i))))
          \<le> int (length (registeredPlayerIds (SESSIONS db ! i)))"
    by simp
  with leaveSession_nth [OF assms(1), where fb = fb and tz = tz and now = now and uid = uid
      and sid = sid] assms(2)
  show ?thesis
    by (auto simp: within_capacity_def left_def simp del: length_filter_le)
qed

lemma apply_op_capacity:
  "i < length (SESSIONS db) \<Longrightarrow> within_capacity (SESSIONS db ! i) \<Longrightarrow>
   within_capacity (SESSIONS (apply_op fb tz db x) ! i)"
  by (cases x) (simp_all add: joinSession_capacity leaveSession_capacity)

lemma run_ops_capacity:
  "i < length (SESSIONS db) \<Longrightarrow> within_capacity (SESSIONS db ! i) \<Longrightarrow>
   within_capacity (SESSIONS (run_ops fb tz db ops) ! i)"
  unfolding run_ops_def
proof (induction ops arbitrary: db)
  case Nil
  then show ?case by simp
next
  case (Cons x ops)
  have "i < length (SESSIONS (apply_op fb tz db x))"
    using Cons.prems(1) by (simp add: apply_op_length)
  moreover have "within_capacity (SESSIONS (apply_op fb tz db x) ! i)"
    using Cons.prems by (rule apply_op_capacity)
  ultimately show ?case
    using Cons.IH [of "apply_op fb tz db x"] by simp
qed

lemma apply_op_same:
  assumes "i < length (SESSIONS db)"
  shows "id_s (SESSIONS (apply_op fb tz db x) ! i) = id_s (SESSIONS db ! i) \<and>
         maxPlayers (SESSIONS (apply_op fb tz db x) ! i) = maxPlayers (SESSIONS db ! i)"
proof (cases x)
  case (Join sid uid)
  with joinSession_nth [OF assms, where uid = uid and sid = sid] show ?thesis
    by (auto simp: joined_def)
next
  case (Leave now sid uid)
  with leaveSession_nth [OF assms, where fb = fb and tz = tz and now = now and uid = uid
      and sid = sid]
  show ?thesis
    by (auto simp: left_def)
qed

lemma run_ops_same:
  "i < length (SESSIONS db) \<Longrightarrow>
   id_s (SESSIONS (run_ops fb tz db ops) ! i) = id_s (SESSIONS db ! i) \<and>
   maxPlayers (SESSIONS (run_ops fb tz db ops) ! i) = maxPlayers (SESSIONS db ! i)"
  unfolding run_ops_def
proof (induction ops arbitrary: db)
  case Nil
  then show ?case by simp
next
  case (Cons x ops)
  have "i < length (SESSIONS (apply_op fb tz db x))"
    using Cons.prems by (simp add: apply_op_length)
  from Cons.IH [OF this] apply_op_same [OF Cons.prems, of fb tz x]
  show ?case by simp
qed

text \<open>
  C2. A session of the store whose roster is within \<open>maxPlayers\<close> stays within it
  through every sequence of join and leave calls (on any sessions, by any users). The
  list of sessions keeps its length, and the session at position \<open>i\<close> keeps its id and
  its \<open>maxPlayers\<close>: position \<open>i\<close> names the same session before and after. A join by a
  user who is not registered, on a session whose roster is at \<open>maxPlayers\<close>, throws
  "Session full" and leaves the whole store, the roster included, as it was.
\<close>

theorem capacity_bound_preserved:
  "(i < length (SESSIONS db) \<and> within_capacity (SESSIONS db ! i) \<longrightarrow>
      length (SESSIONS (run_ops fb tz db ops)) = length (SESSIONS db) \<and>
      id_s (SESSIONS (run_ops fb tz db ops) ! i) = id_s (SESSIONS db ! i) \<and>
      maxPlayers (SESSIONS (run_ops fb tz db ops) ! i) = maxPlayers (SESSIONS db ! i) \<and>
      within_capacity (SESSIONS (run_ops fb tz db ops) ! i)) \<and>
   (find (\<lambda>s. id_s s = sid) (SESSIONS db) = Some s \<and>
    uid \<notin> set (registeredPlayerIds s) \<and>
    int (length (registeredPlayerIds s)) = maxPlayers s \<longrightarrow>
      joinSession db sid uid = (Inl (Error ''Session full''), db))"
  by (simp add: run_ops_length run_ops_capacity run_ops_same joinSession_Some)

lemma db_full_sessions: "SESSIONS db_full = [s1_full, s2_0]"
  by (simp add: db_full_def run_ops_def joinSession_def db_0_def seed_defs Let_def
      s1_full_def)

theorem capacity_bound_preserved_witness:
  "(0 < length (SESSIONS db_0) \<and> within_capacity (SESSIONS db_0 ! 0)) \<and>
   within_capacity (SESSIONS (run_ops fb_none tz_UTC db_0
       [Join ''s1'' ''u6'', Join ''s1'' ''u7'', Join ''s1'' ''u8'', Join ''s1'' ''u9'',
        Leave 1704110400000 ''s1'' ''u1'']) ! 0) \<and>
   (find (\<lambda>s. id_s s = ''s1'') (SESSIONS db_full) = Some s1_full \<and>
    ''u9'' \<notin> set (registeredPlayerIds s1_full) \<and>
    int (length (registeredPlayerIds s1_full)) = maxPlayers s1_full) \<and>
   joinSession db_full ''s1'' ''u9'' = (Inl (Error ''Session full''), db_full)"
proof -
  have h1: "0 < length (SESSIONS db_0) \<and> within_capacity (SESSIONS db_0 ! 0)"
    by (simp add: db_0_sessions) (simp add: seed_defs within_capacity_def)
  have h2: "find (\<lambda>s. id_s s = ''s1'') (SESSIONS db_full) = Some s1_full \<and>
            ''u9'' \<notin> set (registeredPlayerIds s1_full) \<and>
            int (length (registeredPlayerIds s1_full)) = maxPlayers s1_full"
    by (simp add: db_full_sessions) (simp add: s1_full_def)
  from capacity_bound_preserved [THEN conjunct1, rule_format, OF h1]
       capacity_bound_preserved [THEN conjunct2, rule_format, OF h2] h1 h2
  show ?thesis by simp
qed

subsection \<open>The ledger under recordMatch\<close>

lemma recordMatch_None:
  "find (\<lambda>s. id_s s = sessionId md) (SESSIONS db) = None \<Longrightarrow>
   recordMatch rnd ts db md =
     (match_of rnd ts md, db\<lparr>MATCHES := MATCHES db @ [match_of rnd ts md]\<rparr>)"
  by (simp add: recordMatch_def match_of_def Let_def)

lemma recordMatch_Some:
  "find (\<lambda>s. id_s s = sessionId md) (SESSIONS db) = Some s \<Longrightarrow>
   recordMatch rnd ts db md =
     (match_of rnd ts md,
      db\<lparr>MATCHES := MATCHES db @ [match_of rnd ts md],
         MEMBERS := map (bump (clubId_s s) (teamA md @ teamB md)
                           (if winner md = WinnerA then teamA md else teamB md)) (MEMBERS db)\<rparr>)"
  by (simp add: recordMatch_def match_of_def Let_def)

lemma recordMatch_members_length:
  "length (MEMBERS (snd (recordMatch rnd ts db md))) = length (MEMBERS db)"
  by (cases "find (\<lambda>s. id_s s = sessionId md) (SESSIONS db)")
     (simp_all add: recordMatch_None recordMatch_Some)

lemma bump_cases:
  "bump cid ps ws m = m \<or>
   bump cid ps ws m = m\<lparr>matchesPlayed := matchesPlayed m + 1\<rparr> \<or>
   bump cid ps ws m = m\<lparr>matchesPlayed := matchesPlayed m + 1, matchesWon := matchesWon m + 1\<rparr>"
  by (simp add: bump_def Let_def)

lemma recordMatch_member_nth:
  assumes "i < length (MEMBERS db)"
  shows "\<exists>cid ps ws.
      MEMBERS (snd (recordMatch rnd ts db md)) ! i = bump cid ps ws (MEMBERS db ! i) \<or>
      MEMBERS (snd (recordMatch rnd ts db md)) ! i = MEMBERS db ! i"
  using assms
  by (cases "find (\<lambda>s. id_s s = sessionId md) (SESSIONS db)")
     (auto simp: recordMatch_None recordMatch_Some)

lemma recordMatch_step:
  assumes "i < length (MEMBERS db)"
  shows "(let m = MEMBERS db ! i; m' = MEMBERS (snd (recordMatch rnd ts db md)) ! i in
          (matchesWon m' = matchesWon m \<and>
             (matchesPlayed m' = matchesPlayed m \<or> matchesPlayed m' = matchesPlayed m + 1)) \<or>
          (matchesWon m' = matchesWon m + 1 \<and> matchesPlayed m' = matchesPlayed m + 1))"
proof -
  from recordMatch_member_nth [OF assms, of rnd ts md]
  obtain cid ps ws where
    "MEMBERS (snd (recordMatch rnd ts db md)) ! i = bump cid ps ws (MEMBERS db ! i) \<or>
     MEMBERS (snd (recordMatch rnd ts db md)) ! i = MEMBERS db ! i"
    by blast
  with bump_cases [of cid ps ws "MEMBERS db ! i"] show ?thesis
    by (auto simp: Let_def)
qed

lemma recordMatch_won_le_played:
  assumes "i < length (MEMBERS db)" and "won_le_played (MEMBERS db ! i)"
  shows "won_le_played (MEMBERS (snd (recordMatch rnd ts db md)) ! i)"
  using recordMatch_step [OF assms(1), of rnd ts md] assms(2)
  by (auto simp: won_le_played_def Let_def)

lemma run_records_length: "length (MEMBERS (run_records db calls)) = length (MEMBERS db)"
  unfolding run_records_def
  by (induction calls arbitrary: db) (auto simp: recordMatch_members_length)

lemma run_records_won_le_played:
  "i < length (MEMBERS db) \<Longrightarrow> won_le_played (MEMBERS db ! i) \<Longrightarrow>
   won_le_played (MEMBERS (run_records db calls) ! i)"
  unfolding run_records_def
proof (induction calls arbitrary: db)
  case Nil
  then show ?case by simp
next
  case (Cons c calls)
  obtain rnd ts md where c: "c = (rnd, ts, md)" by (cases c) auto
  let ?db = "snd (recordMatch rnd ts db md)"
  have "i < length (MEMBERS ?db)"
    using Cons.prems(1) by (simp add: recordMatch_members_length)
  moreover have "won_le_played (MEMBERS ?db ! i)"
    using Cons.prems by (rule recordMatch_won_le_played)
  ultimately show ?case
    using Cons.IH [of ?db] by (simp add: c)
qed

lemma db_0_members_after_calls_12:
  "MEMBERS (run_records db_0 calls_12) =
     [(MEMBERS_0 ! 0)\<lparr>matchesPlayed := 47, matchesWon := 31\<rparr>,
      (MEMBERS_0 ! 1)\<lparr>matchesPlayed := 21\<rparr>,
      (MEMBERS_0 ! 2)\<lparr>matchesPlayed := 42, matchesWon := 36\<rparr>,
      (MEMBERS_0 ! 3)\<lparr>matchesPlayed := 11, matchesWon := 3\<rparr>,
      (MEMBERS_0 ! 4)\<lparr>matchesPlayed := 16, matchesWon := 8\<rparr>,
      MEMBERS_0 ! 5]"
  by (simp add: run_records_def calls_12_def md_1_def md_2_def recordMatch_def db_0_def
      seed_defs MEMBERS_0_def bump_def Let_def)

lemma recordMatch_same_row:
  assumes "i < length (MEMBERS db)"
  shows "clubId (MEMBERS (snd (recordMatch rnd ts db md)) ! i) = clubId (MEMBERS db ! i) \<and>
         userId (MEMBERS (snd (recordMatch rnd ts db md)) ! i) = userId (MEMBERS db ! i)"
proof -
  from recordMatch_member_nth [OF assms, of rnd ts md]
  obtain cid ps ws where
    "MEMBERS (snd (recordMatch rnd ts db md)) ! i = bump cid ps ws (MEMBERS db ! i) \<or>
     MEMBERS (snd (recordMatch rnd ts db md)) ! i = MEMBERS db ! i"
    by blast
  with bump_cases [of cid ps ws "MEMBERS db ! i"] show ?thesis
    by auto
qed

lemma run_records_same_row:
  "i < length (MEMBERS db) \<Longrightarrow>
   clubId (MEMBERS (run_records db calls) ! i) = clubId (MEMBERS db ! i) \<and>
   userId (MEMBERS (run_records db calls) ! i) = userId (MEMBERS db ! i)"
  unfolding run_records_def
proof (induction calls arbitrary: db)
  case Nil
  then show ?case by simp
next
  case (Cons c calls)
  obtain rnd ts md where c: "c = (rnd, ts, md)" by (cases c) auto
  let ?db = "snd (recordMatch rnd ts db md)"
  have "i < length (MEMBERS ?db)"
    using Cons.prems by (simp add: recordMatch_members_length)
  from Cons.IH [OF this] recordMatch_same_row [OF Cons.prems, of rnd ts md]
  show ?case by (simp add: c)
qed

text \<open>
  C9. A Membership row with \<open>matchesWon \<le> matchesPlayed\<close> keeps the inequality
  through every sequence of \<^verbatim>\<open>recordMatch\<close> calls, whatever their arguments; it stays
  at its position in \<^verbatim>\<open>MEMBERS\<close> and remains the row of the same club and user. In one
  call a row either keeps \<open>matchesWon\<close> (and \<open>matchesPlayed\<close> stays or grows by one) or
  both counters grow by one: \<open>matchesWon\<close> is never incremented alone.
\<close>

theorem ledger_won_le_played:
  "(i < length (MEMBERS db) \<and> won_le_played (MEMBERS db ! i) \<longrightarrow>
      length (MEMBERS (run_records db calls)) = length (MEMBERS db) \<and>
      clubId (MEMBERS (run_records db calls) ! i) = clubId (MEMBERS db ! i) \<and>
      userId (MEMBERS (run_records db calls) ! i) = userId (MEMBERS db ! i) \<and>
      won_le_played (MEMBERS (run_records db calls) ! i)) \<and>
   (i < length (MEMBERS db) \<longrightarrow>
      (let m = MEMBERS db ! i; m' = MEMBERS (snd (recordMatch rnd ts db md)) ! i in
         (matchesWon m' = matchesWon m \<and>
            (matchesPlayed m' = matchesPlayed m \<or> matchesPlayed m' = matchesPlayed m + 1)) \<or>
         (matchesWon m' = matchesWon m + 1 \<and> matchesPlayed m' = matchesPlayed m + 1)))"
  using recordMatch_step [of i db rnd ts md]
  by (simp add: run_records_length run_records_won_le_played run_records_same_row)

theorem ledger_won_le_played_witness:
  "(0 < length (MEMBERS db_0) \<and> won_le_played (MEMBERS db_0 ! 0)) \<and>
   length (MEMBERS (run_records db_0 calls_12)) = 6 \<and>
   won_le_played (MEMBERS (run_records db_0 calls_12) ! 0) \<and>
   matchesPlayed (MEMBERS (run_records db_0 calls_12) ! 0) = 47 \<and>
   matchesWon (MEMBERS (run_records db_0 calls_12) ! 0) = 31"
proof -
  have h: "0 < length (MEMBERS db_0) \<and> won_le_played (MEMBERS db_0 ! 0)"
    by (simp add: db_0_def MEMBERS_0_def won_le_played_def)
  have n: "length (MEMBERS db_0) = 6"
    by (simp add: db_0_def MEMBERS_0_def)
  from ledger_won_le_played [THEN conjunct1, rule_format, OF h, of calls_12] h n
  show ?thesis
    by (simp add: db_0_members_after_calls_12)
qed

lemma recordMatch_row:
  assumes "find (\<lambda>s. id_s s = sessionId md) (SESSIONS db) = Some s" and "i < length (MEMBERS db)"
  shows "MEMBERS (snd (recordMatch rnd ts db md)) ! i =
     (if clubId (MEMBERS db ! i) = clubId_s s \<and>
         userId (MEMBERS db ! i) \<in> set (teamA md) \<union> set (teamB md)
      then (MEMBERS db ! i)
             \<lparr>matchesPlayed := matchesPlayed (MEMBERS db ! i) + 1,
              matchesWon := matchesWon (MEMBERS db ! i) +
                (if userId (MEMBERS db ! i) \<in> set (if winner md = WinnerA then teamA md else teamB md)
                 then 1 else 0)\<rparr>
      else MEMBERS db ! i)"
  using assms by (auto simp: recordMatch_Some bump_def Let_def)

lemma submitMatch_records:
  "sA \<noteq> sB \<Longrightarrow>
   snd (submitMatch rnd ts db session tA tB sA sB) =
   snd (recordMatch rnd ts db
          \<lparr> sessionId = id_s session, teamA = tA, teamB = tB, scoreA = sA, scoreB = sB,
            winner = (if sA > sB then WinnerA else WinnerB) \<rparr>)"
  by (simp add: submitMatch_def Let_def split: prod.splits)

text \<open>
  C3. When \<^verbatim>\<open>recordMatch\<close> finds the session of the match, every row of \<^verbatim>\<open>MEMBERS\<close>
  stays at its position, and row \<open>m\<close> changes as follows. If \<open>m\<close> belongs to the club of
  that session and its user is in \<open>teamA\<close> or \<open>teamB\<close>, \<open>matchesPlayed\<close> grows by one and
  \<open>matchesWon\<close> grows by one exactly when the user is in the winning team (the team
  the \<open>winner\<close> field names); nothing else of the row changes. Every other row,
  among them the rows of other clubs for the same users, is unchanged; a participant
  with no row in the club has no row to change. The same holds of a result submitted
  through \<^verbatim>\<open>submitMatch\<close> with different scores, where the winning team is the one
  with the higher score.
\<close>

theorem ledger_update:
  "(find (\<lambda>s. id_s s = sessionId md) (SESSIONS db) = Some s \<and> i < length (MEMBERS db) \<longrightarrow>
     length (MEMBERS (snd (recordMatch rnd ts db md))) = length (MEMBERS db) \<and>
     (let m = MEMBERS db ! i; m' = MEMBERS (snd (recordMatch rnd ts db md)) ! i in
      if clubId m = clubId_s s \<and> userId m \<in> set (teamA md) \<union> set (teamB md)
      then m' = m\<lparr>matchesPlayed := matchesPlayed m + 1,
                  matchesWon := matchesWon m +
                    (if userId m \<in> set (if winner md = WinnerA then teamA md else teamB md)
                     then 1 else 0)\<rparr>
      else m' = m)) \<and>
   (find (\<lambda>s. id_s s = id_s session) (SESSIONS db) = Some s \<and> i < length (MEMBERS db) \<and>
    sA \<noteq> sB \<longrightarrow>
     length (MEMBERS (snd (submitMatch rnd ts db session tA tB sA sB))) = length (MEMBERS db) \<and>
     (let m = MEMBERS db ! i;
          m' = MEMBERS (snd (submitMatch rnd ts db session tA tB sA sB)) ! i in
      if clubId m = clubId_s s \<and> userId m \<in> set tA \<union> set tB
      then m' = m\<lparr>matchesPlayed := matchesPlayed m + 1,
                  matchesWon := matchesWon m +
                    (if userId m \<in> set (if sA > sB then tA else tB) then 1 else 0)\<rparr>
      else m' = m))"
  (is "(?P1 \<longrightarrow> ?Q1) \<and> (?P2 \<longrightarrow> ?Q2)")
proof (rule conjI)
  show "?P1 \<longrightarrow> ?Q1"
  proof
    assume ?P1
    then show ?Q1
      by (simp add: recordMatch_members_length recordMatch_row Let_def)
  qed
next
  let ?md = "\<lparr> sessionId = id_s session, teamA = tA, teamB = tB, scoreA = sA, scoreB = sB,
               winner = (if sA > sB then WinnerA else WinnerB) \<rparr>"
  show "?P2 \<longrightarrow> ?Q2"
  proof
    assume ?P2
    then have f: "find (\<lambda>s. id_s s = sessionId ?md) (SESSIONS db) = Some s"
      and i: "i < length (MEMBERS db)" and ne: "sA \<noteq> sB"
      by simp_all
    show ?Q2
      unfolding submitMatch_records [OF ne]
      using recordMatch_row [OF f i, of rnd ts]
      by (simp add: recordMatch_members_length Let_def)
  qed
qed

theorem ledger_update_witness:
  "(find (\<lambda>s. id_s s = sessionId md_1) (SESSIONS db_0) = Some s1_0 \<and>
    0 < length (MEMBERS db_0) \<and> 1 < length (MEMBERS db_0) \<and> 5 < length (MEMBERS db_0)) \<and>
   MEMBERS (snd (recordMatch ''0.k3j9x0q2ab1'' ''2024-01-01T12:00:00.000Z'' db_0 md_1)) ! 0 =
     (MEMBERS db_0 ! 0)\<lparr>matchesPlayed := 46, matchesWon := 31\<rparr> \<and>
   MEMBERS (snd (recordMatch ''0.k3j9x0q2ab1'' ''2024-01-01T12:00:00.000Z'' db_0 md_1)) ! 1 =
     (MEMBERS db_0 ! 1)\<lparr>matchesPlayed := 21, matchesWon := 8\<rparr> \<and>
   MEMBERS (snd (recordMatch ''0.k3j9x0q2ab1'' ''2024-01-01T12:00:00.000Z'' db_0 md_1)) ! 5 =
     MEMBERS db_0 ! 5 \<and>
   (find (\<lambda>s. id_s s = id_s s1_0) (SESSIONS db_fresh) = Some s1_0 \<and>
    0 < length (MEMBERS db_fresh) \<and> 1 < length (MEMBERS db_fresh) \<and> (21::int) \<noteq> 10) \<and>
   MEMBERS (snd (submitMatch ''0.k3j9x0q2ab1'' ''2024-01-01T12:00:00.000Z'' db_fresh s1_0
       [''u1''] [''u2''] 21 10)) ! 0 =
     (MEMBERS db_fresh ! 0)\<lparr>matchesPlayed := 1, matchesWon := 1\<rparr> \<and>
   MEMBERS (snd (submitMatch ''0.k3j9x0q2ab1'' ''2024-01-01T12:00:00.000Z'' db_fresh s1_0
       [''u1''] [''u2''] 21 10)) ! 1 =
     (MEMBERS db_fresh ! 1)\<lparr>matchesPlayed := 1, matchesWon := 0\<rparr>"
proof -
  let ?db = "snd (recordMatch ''0.k3j9x0q2ab1'' ''2024-01-01T12:00:00.000Z'' db_0 md_1)"
  have f: "find (\<lambda>s. id_s s = sessionId md_1) (SESSIONS db_0) = Some s1_0"
    by (simp add: md_1_def db_0_def seed_defs)
  have n: "0 < length (MEMBERS db_0)" "1 < length (MEMBERS db_0)" "5 < length (MEMBERS db_0)"
    by (simp_all add: db_0_def MEMBERS_0_def)
  have r0: "MEMBERS ?db ! 0 = (MEMBERS db_0 ! 0)\<lparr>matchesPlayed := 46, matchesWon := 31\<rparr>"
    using ledger_update [THEN conjunct1, rule_format, OF conjI [OF f n(1)],
        of "''0.k3j9x0q2ab1''" "''2024-01-01T12:00:00.000Z''"]
    by (simp add: Let_def) (simp add: db_0_def MEMBERS_0_def seed_defs md_1_def)
  have r1: "MEMBERS ?db ! 1 = (MEMBERS db_0 ! 1)\<lparr>matchesPlayed := 21, matchesWon := 8\<rparr>"
    using ledger_update [THEN conjunct1, rule_format, OF conjI [OF f n(2)],
        of "''0.k3j9x0q2ab1''" "''2024-01-01T12:00:00.000Z''"]
    by (simp add: Let_def) (simp add: db_0_def MEMBERS_0_def seed_defs md_1_def)
  have r5: "MEMBERS ?db ! 5 = MEMBERS db_0 ! 5"
    using ledger_update [THEN conjunct1, rule_format, OF conjI [OF f n(3)],
        of "''0.k3j9x0q2ab1''" "''2024-01-01T12:00:00.000Z''"]
    by (simp add: Let_def) (simp add: db_0_def MEMBERS_0_def seed_defs md_1_def)
  let ?db' = "snd (submitMatch ''0.k3j9x0q2ab1'' ''2024-01-01T12:00:00.000Z'' db_fresh s1_0
       [''u1''] [''u2''] 21 10)"
  have g0: "find (\<lambda>s. id_s s = id_s s1_0) (SESSIONS db_fresh) = Some s1_0 \<and>
      0 < length (MEMBERS db_fresh) \<and> (21::int) \<noteq> 10"
    by (simp add: db_fresh_def)
  have g1: "find (\<lambda>s. id_s s = id_s s1_0) (SESSIONS db_fresh) = Some s1_0 \<and>
      1 < length (MEMBERS db_fresh) \<and> (21::int) \<noteq> 10"
    by (simp add: db_fresh_def)
  have q0: "MEMBERS ?db' ! 0 = (MEMBERS db_fresh ! 0)\<lparr>matchesPlayed := 1, matchesWon := 1\<rparr>"
    using ledger_update [THEN conjunct2, rule_format, OF g0,
        of "''0.k3j9x0q2ab1''" "''2024-01-01T12:00:00.000Z''" "[''u1'']" "[''u2'']"]
    by (simp add: Let_def) (simp add: db_fresh_def seed_defs)
  have q1: "MEMBERS ?db' ! 1 = (MEMBERS db_fresh ! 1)\<lparr>matchesPlayed := 1, matchesWon := 0\<rparr>"
    using ledger_update [THEN conjunct2, rule_format, OF g1,
        of "''0.k3j9x0q2ab1''" "''2024-01-01T12:00:00.000Z''" "[''u1'']" "[''u2'']"]
    by (simp add: Let_def) (simp add: db_fresh_def seed_defs)
  from f n r0 r1 r5 g0 g1 q0 q1 show ?thesis by simp
qed

text \<open>
  C10, as the specification states it, fails: \<^verbatim>\<open>recordMatch\<close> on the seed store with a
  session id that no session has returns the new match, which is then the third
  element of \<^verbatim>\<open>MATCHES\<close>. Nothing is thrown: the function has no \<^verbatim>\<open>throw\<close>.
\<close>

theorem record_unknown_session_counterexample:
  "find (\<lambda>s. id_s s = sessionId md_3) (SESSIONS db_0) = None \<and>
   fst (recordMatch ''0.k3j9x0q2ab1'' ''2024-01-01T12:00:00.000Z'' db_0 md_3) =
     \<lparr> sessionId = ''s9'', teamA = [''u1''], teamB = [''u2''], scoreA = 21, scoreB = 10,
       winner = WinnerA, id_m = ''mk3j9x0q2a'', timestamp = ''2024-01-01T12:00:00.000Z'' \<rparr> \<and>
   MATCHES (snd (recordMatch ''0.k3j9x0q2ab1'' ''2024-01-01T12:00:00.000Z'' db_0 md_3)) =
     MATCHES db_0 @
     [\<lparr> sessionId = ''s9'', teamA = [''u1''], teamB = [''u2''], scoreA = 21, scoreB = 10,
        winner = WinnerA, id_m = ''mk3j9x0q2a'', timestamp = ''2024-01-01T12:00:00.000Z'' \<rparr>]"
  by (simp add: recordMatch_def md_3_def db_0_def seed_defs Let_def substr_2_9_def)

text \<open>
  C10, amended. When no session has the id of the match, \<^verbatim>\<open>recordMatch\<close> returns the
  new match without an error, appends it to \<^verbatim>\<open>MATCHES\<close>, and leaves \<^verbatim>\<open>MEMBERS\<close> (every
  counter) and \<^verbatim>\<open>SESSIONS\<close> as they were: the ledger update is skipped by the guard
  \<^verbatim>\<open>if (session)\<close>.
\<close>

theorem record_unknown_session:
  "find (\<lambda>s. id_s s = sessionId md) (SESSIONS db) = None \<longrightarrow>
     fst (recordMatch rnd ts db md) = match_of rnd ts md \<and>
     MATCHES (snd (recordMatch rnd ts db md)) = MATCHES db @ [match_of rnd ts md] \<and>
     MEMBERS (snd (recordMatch rnd ts db md)) = MEMBERS db \<and>
     SESSIONS (snd (recordMatch rnd ts db md)) = SESSIONS db"
  by (simp add: recordMatch_None)

theorem record_unknown_session_witness:
  "find (\<lambda>s. id_s s = sessionId md_3) (SESSIONS db_0) = None \<and>
   length (MATCHES (snd (recordMatch ''0.k3j9x0q2ab1'' ''2024-01-01T12:00:00.000Z'' db_0 md_3))) = 3 \<and>
   MEMBERS (snd (recordMatch ''0.k3j9x0q2ab1'' ''2024-01-01T12:00:00.000Z'' db_0 md_3)) = MEMBERS_0"
proof -
  have h: "find (\<lambda>s. id_s s = sessionId md_3) (SESSIONS db_0) = None"
    by (simp add: md_3_def db_0_def seed_defs)
  from record_unknown_session [rule_format, OF h,
      of "''0.k3j9x0q2ab1''" "''2024-01-01T12:00:00.000Z''"] h
  show ?thesis
    by (simp add: db_0_def MATCHES_0_def)
qed

subsection \<open>Submitting a result\<close>

text \<open>
  C4. \<^verbatim>\<open>submitMatch\<close> is the operation that takes the two teams and the two scores and
  derives the winner. On equal scores it refuses with the message "Matches cannot
  end in a draw" and the store, hence \<^verbatim>\<open>MATCHES\<close> and every counter of \<^verbatim>\<open>MEMBERS\<close>, is
  unchanged. On different scores it records a match, which becomes the last element
  of \<^verbatim>\<open>MATCHES\<close>, carries the two scores, and has winner A exactly when
  \<open>scoreA > scoreB\<close> and winner B otherwise.
\<close>

theorem tie_rejected_winner_derived:
  "(sA = sB \<longrightarrow>
      submitMatch rnd ts db session tA tB sA sB = (Alert ''Matches cannot end in a draw'', db)) \<and>
   (sA \<noteq> sB \<longrightarrow>
      (\<exists>m db'. submitMatch rnd ts db session tA tB sA sB = (Recorded m, db') \<and>
         MATCHES db' = MATCHES db @ [m] \<and> scoreA m = sA \<and> scoreB m = sB \<and>
         (winner m = WinnerA \<longleftrightarrow> sA > sB) \<and> (winner m = WinnerB \<longleftrightarrow> \<not> sA > sB)))"
proof (intro conjI impI)
  assume "sA = sB"
  then show "submitMatch rnd ts db session tA tB sA sB =
      (Alert ''Matches cannot end in a draw'', db)"
    by (simp add: submitMatch_def)
next
  assume ne: "sA \<noteq> sB"
  let ?md = "\<lparr> sessionId = id_s session, teamA = tA, teamB = tB, scoreA = sA, scoreB = sB,
               winner = (if sA > sB then WinnerA else WinnerB) \<rparr>"
  have sub: "submitMatch rnd ts db session tA tB sA sB =
      (Recorded (fst (recordMatch rnd ts db ?md)), snd (recordMatch rnd ts db ?md))"
    using ne by (simp add: submitMatch_def Let_def split: prod.splits)
  have m: "fst (recordMatch rnd ts db ?md) = match_of rnd ts ?md"
    by (cases "find (\<lambda>s. id_s s = sessionId ?md) (SESSIONS db)")
       (simp_all add: recordMatch_None recordMatch_Some)
  have ms: "MATCHES (snd (recordMatch rnd ts db ?md)) = MATCHES db @ [match_of rnd ts ?md]"
    by (cases "find (\<lambda>s. id_s s = sessionId ?md) (SESSIONS db)")
       (simp_all add: recordMatch_None recordMatch_Some)
  have "scoreA (match_of rnd ts ?md) = sA \<and> scoreB (match_of rnd ts ?md) = sB \<and>
        (winner (match_of rnd ts ?md) = WinnerA \<longleftrightarrow> sA > sB) \<and>
        (winner (match_of rnd ts ?md) = WinnerB \<longleftrightarrow> \<not> sA > sB)"
    by (simp add: match_of_def)
  with sub m ms
  show "\<exists>m db'. submitMatch rnd ts db session tA tB sA sB = (Recorded m, db') \<and>
         MATCHES db' = MATCHES db @ [m] \<and> scoreA m = sA \<and> scoreB m = sB \<and>
         (winner m = WinnerA \<longleftrightarrow> sA > sB) \<and> (winner m = WinnerB \<longleftrightarrow> \<not> sA > sB)"
    by (metis (no_types, lifting))
qed

theorem tie_rejected_winner_derived_witness:
  "submitMatch ''0.k3j9x0q2ab1'' ''2024-01-01T12:00:00.000Z'' db_0 s1_0
      [''u1''] [''u2''] 15 15 = (Alert ''Matches cannot end in a draw'', db_0) \<and>
   (\<exists>m db'. submitMatch ''0.k3j9x0q2ab1'' ''2024-01-01T12:00:00.000Z'' db_0 s1_0
      [''u1''] [''u2''] 21 10 = (Recorded m, db') \<and>
      MATCHES db' = MATCHES db_0 @ [m] \<and> winner m = WinnerA) \<and>
   (\<exists>m db'. submitMatch ''0.k3j9x0q2ab1'' ''2024-01-01T12:00:00.000Z'' db_0 s1_0
      [''u1''] [''u2''] 10 21 = (Recorded m, db') \<and>
      MATCHES db' = MATCHES db_0 @ [m] \<and> winner m = WinnerB)"
proof -
  note t = tie_rejected_winner_derived [of _ _ "''0.k3j9x0q2ab1''" "''2024-01-01T12:00:00.000Z''"
      db_0 "s1_0" "[''u1'']" "[''u2'']"]
  have a: "submitMatch ''0.k3j9x0q2ab1'' ''2024-01-01T12:00:00.000Z'' db_0 s1_0
      [''u1''] [''u2''] 15 15 = (Alert ''Matches cannot end in a draw'', db_0)"
    using t [of 15 15] by simp
  have b: "\<exists>m db'. submitMatch ''0.k3j9x0q2ab1'' ''2024-01-01T12:00:00.000Z'' db_0 s1_0
      [''u1''] [''u2''] 21 10 = (Recorded m, db') \<and>
      MATCHES db' = MATCHES db_0 @ [m] \<and> winner m = WinnerA"
    using t [of 21 10] by auto
  have c: "\<exists>m db'. submitMatch ''0.k3j9x0q2ab1'' ''2024-01-01T12:00:00.000Z'' db_0 s1_0
      [''u1''] [''u2''] 10 21 = (Recorded m, db') \<and>
      MATCHES db' = MATCHES db_0 @ [m] \<and> winner m = WinnerB"
    using t [of 10 21] by auto
  from a b c show ?thesis by simp
qed

subsection \<open>Status and roster\<close>

lemmas date_defs = Date_parse_def parseYMD_def parseHM_def digit_of_def TimeClip_def UTC_def
  clipped_def
  MakeDate_def MakeDay_def MakeTime_def DayFromYear_def DaysInYear_def monthStart_def msPerDay_def

lemma sessionDate_s1: "sessionDate fb_none tz_UTC s1_0 = Some 1704222000000"
  by (simp add: sessionDate_def db_0_def seed_defs str_of_def tz_UTC_def date_defs)

lemma sessionDate_s1_full: "sessionDate fb_none tz_UTC s1_full = Some 1704222000000"
  by (simp add: sessionDate_def s1_full_def str_of_def tz_UTC_def date_defs)

lemma sessionDate_s2: "sessionDate fb_none tz_UTC s2_0 = Some 1704045600000"
  by (simp add: sessionDate_def db_0_def seed_defs str_of_def tz_UTC_def date_defs)

lemma left_id: "id_s (left uid s) = id_s s"
  by (simp add: left_def)

lemma joined_id: "id_s (joined uid s) = id_s s"
  by (simp add: joined_def)

lemma leaveSession_stored:
  assumes f: "find (\<lambda>s. id_s s = sid) (SESSIONS db) = Some s"
    and n: "\<not> num_lt (sessionDate fb tz s) now"
  shows "leaveSession fb tz now db sid uid =
           (Inr (left uid s),
            db\<lparr>SESSIONS := update_first (\<lambda>s. id_s s = sid) (\<lambda>_. left uid s) (SESSIONS db)\<rparr>)"
    and "find (\<lambda>s. id_s s = sid) (SESSIONS (snd (leaveSession fb tz now db sid uid))) =
           Some (left uid s)"
proof -
  show a: "leaveSession fb tz now db sid uid =
           (Inr (left uid s),
            db\<lparr>SESSIONS := update_first (\<lambda>s. id_s s = sid) (\<lambda>_. left uid s) (SESSIONS db)\<rparr>)"
    using n by (simp add: leaveSession_Some [OF f])
  have "id_s (left uid s) = sid"
    using find_Some_P [OF f] by (simp add: left_id)
  from find_update_first [OF f, of "left uid s"] this
  show "find (\<lambda>s. id_s s = sid) (SESSIONS (snd (leaveSession fb tz now db sid uid))) =
           Some (left uid s)"
    by (simp add: a)
qed

lemma joinSession_stored:
  assumes f: "find (\<lambda>s. id_s s = sid) (SESSIONS db) = Some s"
    and n: "uid \<notin> set (registeredPlayerIds s)"
    and c: "int (length (registeredPlayerIds s)) < maxPlayers s"
  shows "joinSession db sid uid =
           (Inr (joined uid s),
            db\<lparr>SESSIONS := update_first (\<lambda>s. id_s s = sid) (\<lambda>_. joined uid s) (SESSIONS db)\<rparr>)"
    and "find (\<lambda>s. id_s s = sid) (SESSIONS (snd (joinSession db sid uid))) =
           Some (joined uid s)"
proof -
  show a: "joinSession db sid uid =
           (Inr (joined uid s),
            db\<lparr>SESSIONS := update_first (\<lambda>s. id_s s = sid) (\<lambda>_. joined uid s) (SESSIONS db)\<rparr>)"
    using n c by (simp add: joinSession_Some [OF f])
  have "id_s (joined uid s) = sid"
    using find_Some_P [OF f] by (simp add: joined_id)
  from find_update_first [OF f, of "joined uid s"] this
  show "find (\<lambda>s. id_s s = sid) (SESSIONS (snd (joinSession db sid uid))) =
           Some (joined uid s)"
    by (simp add: a)
qed

text \<open>
  C1 says that the status of a session that is not COMPLETED is FULL exactly when
  its roster has \<open>maxPlayers\<close> entries, also after a leave call that removes nobody.
  The code breaks this at a state the seed store reaches: after \<^verbatim>\<open>u6\<close>, \<^verbatim>\<open>u7\<close> and \<^verbatim>\<open>u8\<close>
  have joined, session \<^verbatim>\<open>s1\<close> is FULL with eight of eight places taken. A leave call
  for \<^verbatim>\<open>u9\<close>, who is not on the roster, on the day before the session, removes nobody
  and still sets the status to OPEN: the session is then OPEN with its roster at
  \<open>maxPlayers\<close>.
\<close>

theorem leave_by_unregistered_user_opens_full_session:
  "SESSIONS db_full ! 0 = s1_full \<and> status s1_full = FULL \<and>
   int (length (registeredPlayerIds s1_full)) = maxPlayers s1_full \<and>
   ''u9'' \<notin> set (registeredPlayerIds s1_full) \<and>
   fst (leaveSession fb_none tz_UTC 1704110400000 db_full ''s1'' ''u9'') = Inr (s1_full\<lparr>status := OPEN\<rparr>) \<and>
   SESSIONS (snd (leaveSession fb_none tz_UTC 1704110400000 db_full ''s1'' ''u9'')) ! 0 =
     s1_full\<lparr>status := OPEN\<rparr> \<and>
   int (length (registeredPlayerIds (s1_full\<lparr>status := OPEN\<rparr>))) = maxPlayers (s1_full\<lparr>status := OPEN\<rparr>)"
proof -
  have f: "find (\<lambda>s. id_s s = ''s1'') (SESSIONS db_full) = Some s1_full"
    by (simp add: db_full_sessions) (simp add: s1_full_def)
  have l: "left ''u9'' s1_full = s1_full\<lparr>status := OPEN\<rparr>"
    by (simp add: left_def s1_full_def)
  show ?thesis
    by (simp add: leaveSession_Some [OF f] sessionDate_s1_full num_lt_def l db_full_sessions)
       (simp add: s1_full_def)
qed

subsection \<open>Completed sessions\<close>

text \<open>
  C5, as the specification states it, fails: in the seed store session \<^verbatim>\<open>s2\<close> is COMPLETED
  with four of six places taken, and \<^verbatim>\<open>joinSession\<close> for \<^verbatim>\<open>u4\<close> succeeds and puts \<^verbatim>\<open>u4\<close> on
  its roster.
\<close>

theorem join_completed_session_counterexample:
  "status s2_0 = COMPLETED \<and>
   registeredPlayerIds s2_0 = [''u1'', ''u3'', ''u5'', ''u2''] \<and>
   fst (joinSession db_0 ''s2'' ''u4'') =
     Inr (s2_0\<lparr>registeredPlayerIds := [''u1'', ''u3'', ''u5'', ''u2'', ''u4'']\<rparr>) \<and>
   registeredPlayerIds (SESSIONS (snd (joinSession db_0 ''s2'' ''u4'')) ! 1) =
     [''u1'', ''u3'', ''u5'', ''u2'', ''u4'']"
  by (simp add: joinSession_def db_0_def seed_defs Let_def)

text \<open>
  C5, amended. Neither operation reads the status before it acts, so a COMPLETED
  session is treated like any other. \<^verbatim>\<open>leaveSession\<close> throws "Cannot leave past
  session", the store unchanged, when the start instant is before the current
  instant; otherwise it removes the user and the status stays COMPLETED.
  \<^verbatim>\<open>joinSession\<close> returns the session unchanged for a registered user; throws "Session
  full", the store unchanged, for a new user when the roster has reached
  \<open>maxPlayers\<close>; and otherwise appends the user, the status staying COMPLETED unless
  the roster thereby reaches \<open>maxPlayers\<close>, when it becomes FULL.
\<close>

theorem completed_session_join_leave:
  "find (\<lambda>s. id_s s = sid) (SESSIONS db) = Some s \<and> status s = COMPLETED \<longrightarrow>
     (num_lt (sessionDate fb tz s) now \<longrightarrow>
        leaveSession fb tz now db sid uid = (Inl (Error ''Cannot leave past session''), db)) \<and>
     (\<not> num_lt (sessionDate fb tz s) now \<longrightarrow>
        fst (leaveSession fb tz now db sid uid) =
          Inr (s\<lparr>registeredPlayerIds := filter (\<lambda>i. i \<noteq> uid) (registeredPlayerIds s)\<rparr>) \<and>
        find (\<lambda>s. id_s s = sid) (SESSIONS (snd (leaveSession fb tz now db sid uid))) =
          Some (s\<lparr>registeredPlayerIds := filter (\<lambda>i. i \<noteq> uid) (registeredPlayerIds s)\<rparr>)) \<and>
     (uid \<in> set (registeredPlayerIds s) \<longrightarrow> joinSession db sid uid = (Inr s, db)) \<and>
     (uid \<notin> set (registeredPlayerIds s) \<and> maxPlayers s \<le> int (length (registeredPlayerIds s)) \<longrightarrow>
        joinSession db sid uid = (Inl (Error ''Session full''), db)) \<and>
     (uid \<notin> set (registeredPlayerIds s) \<and> int (length (registeredPlayerIds s)) < maxPlayers s \<longrightarrow>
        fst (joinSession db sid uid) =
          Inr (s\<lparr>registeredPlayerIds := registeredPlayerIds s @ [uid],
                 status := (if maxPlayers s \<le> int (length (registeredPlayerIds s)) + 1
                            then FULL else COMPLETED)\<rparr>) \<and>
        find (\<lambda>s. id_s s = sid) (SESSIONS (snd (joinSession db sid uid))) =
          Some (s\<lparr>registeredPlayerIds := registeredPlayerIds s @ [uid],
                   status := (if maxPlayers s \<le> int (length (registeredPlayerIds s)) + 1
                              then FULL else COMPLETED)\<rparr>))"
proof (intro impI, elim conjE)
  assume f: "find (\<lambda>s. id_s s = sid) (SESSIONS db) = Some s" and c: "status s = COMPLETED"
  have l: "left uid s = s\<lparr>registeredPlayerIds := filter (\<lambda>i. i \<noteq> uid) (registeredPlayerIds s)\<rparr>"
    using c by (simp add: left_def)
  have j: "joined uid s = s\<lparr>registeredPlayerIds := registeredPlayerIds s @ [uid],
                 status := (if maxPlayers s \<le> int (length (registeredPlayerIds s)) + 1
                            then FULL else COMPLETED)\<rparr>"
    using c by (simp add: joined_def)
  show "(num_lt (sessionDate fb tz s) now \<longrightarrow>
        leaveSession fb tz now db sid uid = (Inl (Error ''Cannot leave past session''), db)) \<and>
     (\<not> num_lt (sessionDate fb tz s) now \<longrightarrow>
        fst (leaveSession fb tz now db sid uid) =
          Inr (s\<lparr>registeredPlayerIds := filter (\<lambda>i. i \<noteq> uid) (registeredPlayerIds s)\<rparr>) \<and>
        find (\<lambda>s. id_s s = sid) (SESSIONS (snd (leaveSession fb tz now db sid uid))) =
          Some (s\<lparr>registeredPlayerIds := filter (\<lambda>i. i \<noteq> uid) (registeredPlayerIds s)\<rparr>)) \<and>
     (uid \<in> set (registeredPlayerIds s) \<longrightarrow> joinSession db sid uid = (Inr s, db)) \<and>
     (uid \<notin> set (registeredPlayerIds s) \<and> maxPlayers s \<le> int (length (registeredPlayerIds s)) \<longrightarrow>
        joinSession db sid uid = (Inl (Error ''Session full''), db)) \<and>
     (uid \<notin> set (registeredPlayerIds s) \<and> int (length (registeredPlayerIds s)) < maxPlayers s \<longrightarrow>
        fst (joinSession db sid uid) =
          Inr (s\<lparr>registeredPlayerIds := registeredPlayerIds s @ [uid],
                 status := (if maxPlayers s \<le> int (length (registeredPlayerIds s)) + 1
                            then FULL else COMPLETED)\<rparr>) \<and>
        find (\<lambda>s. id_s s = sid) (SESSIONS (snd (joinSession db sid uid))) =
          Some (s\<lparr>registeredPlayerIds := registeredPlayerIds s @ [uid],
                   status := (if maxPlayers s \<le> int (length (registeredPlayerIds s)) + 1
                              then FULL else COMPLETED)\<rparr>))"
    using leaveSession_stored [OF f, where fb = fb and tz = tz and now = now and uid = uid]
      joinSession_stored [OF f, of uid]
    by (simp add: leaveSession_Some [OF f] joinSession_Some [OF f] l j)
qed

theorem completed_session_join_leave_witness:
  "(find (\<lambda>s. id_s s = ''s2'') (SESSIONS db_0) = Some s2_0 \<and>
    status s2_0 = COMPLETED) \<and>
   leaveSession fb_none tz_UTC 1704110400000 db_0 ''s2'' ''u1'' =
     (Inl (Error ''Cannot leave past session''), db_0) \<and>
   fst (leaveSession fb_none tz_UTC 1704000000000 db_0 ''s2'' ''u1'') =
     Inr (s2_0\<lparr>registeredPlayerIds := [''u3'', ''u5'', ''u2'']\<rparr>) \<and>
   joinSession db_0 ''s2'' ''u1'' = (Inr s2_0, db_0) \<and>
   fst (joinSession db_0 ''s2'' ''u4'') =
     Inr (s2_0\<lparr>registeredPlayerIds := [''u1'', ''u3'', ''u5'', ''u2'', ''u4''],
                               status := COMPLETED\<rparr>) \<and>
   (find (\<lambda>s. id_s s = ''s2'') (SESSIONS db_small) = Some s2_small \<and>
    status s2_small = COMPLETED) \<and>
   joinSession db_small ''s2'' ''u4'' = (Inl (Error ''Session full''), db_small)"
proof -
  let ?s = "s2_0"
  have h: "find (\<lambda>s. id_s s = ''s2'') (SESSIONS db_0) = Some ?s \<and> status ?s = COMPLETED"
    by (simp add: db_0_def seed_defs)
  have r: "registeredPlayerIds ?s = [''u1'', ''u3'', ''u5'', ''u2'']" "maxPlayers ?s = 6"
    by (simp_all add: db_0_def seed_defs)
  note t = completed_session_join_leave [rule_format, OF h]
  have a: "leaveSession fb_none tz_UTC 1704110400000 db_0 ''s2'' ''u1'' =
     (Inl (Error ''Cannot leave past session''), db_0)"
    using t [of fb_none tz_UTC 1704110400000 "''u1''"] by (simp add: sessionDate_s2 num_lt_def)
  have b: "fst (leaveSession fb_none tz_UTC 1704000000000 db_0 ''s2'' ''u1'') =
     Inr (?s\<lparr>registeredPlayerIds := [''u3'', ''u5'', ''u2'']\<rparr>)"
    using t [of fb_none tz_UTC 1704000000000 "''u1''"] by (simp add: sessionDate_s2 num_lt_def r)
  have c: "joinSession db_0 ''s2'' ''u1'' = (Inr ?s, db_0)"
    using t [of fb_none tz_UTC 0 "''u1''"] by (simp add: r)
  have d: "fst (joinSession db_0 ''s2'' ''u4'') =
     Inr (?s\<lparr>registeredPlayerIds := [''u1'', ''u3'', ''u5'', ''u2'', ''u4''],
             status := COMPLETED\<rparr>)"
    using t [of fb_none tz_UTC 0 "''u4''"] by (simp add: r)
  let ?s' = "s2_small"
  have h': "find (\<lambda>s. id_s s = ''s2'') (SESSIONS db_small) = Some ?s' \<and> status ?s' = COMPLETED"
    by (simp add: db_small_def s2_small_def db_0_def seed_defs)
  have r': "registeredPlayerIds ?s' = [''u1'', ''u3'', ''u5'', ''u2'']" "maxPlayers ?s' = 4"
    by (simp_all add: db_small_def s2_small_def db_0_def seed_defs)
  have e: "joinSession db_small ''s2'' ''u4'' = (Inl (Error ''Session full''), db_small)"
    using completed_session_join_leave [rule_format, OF h', of fb_none tz_UTC 0 "''u4''"]
    by (simp add: r')
  from h a b c d h' e show ?thesis by simp
qed

subsection \<open>The lock on leaving\<close>

text \<open>
  C6, as the specification states it, fails at the start instant itself: session \<^verbatim>\<open>s1\<close> of the
  seed store starts at 2024-01-02T19:00 UTC, which is 1704222000000, and a leave
  call for \<^verbatim>\<open>u1\<close> at that very instant succeeds and takes \<^verbatim>\<open>u1\<close> off the roster.
\<close>

theorem leave_at_start_instant_counterexample:
  "sessionDate fb_none tz_UTC s1_0 = Some 1704222000000 \<and>
   fst (leaveSession fb_none tz_UTC 1704222000000 db_0 ''s1'' ''u1'') =
     Inr (s1_0\<lparr>registeredPlayerIds := [''u2'', ''u3'', ''u4'', ''u5'']\<rparr>) \<and>
   registeredPlayerIds (SESSIONS (snd (leaveSession fb_none tz_UTC 1704222000000 db_0 ''s1'' ''u1'')) ! 0) =
     [''u2'', ''u3'', ''u4'', ''u5'']"
proof -
  have f: "find (\<lambda>s. id_s s = ''s1'') (SESSIONS db_0) = Some s1_0"
    by (simp add: db_0_def seed_defs)
  show ?thesis
    by (simp add: leaveSession_Some [OF f] sessionDate_s1 num_lt_def left_def)
       (simp add: db_0_def seed_defs)
qed

text \<open>
  C6, amended. The comparison is strict. When the start instant of the session is
  strictly before the current instant, \<^verbatim>\<open>leaveSession\<close> throws "Cannot leave past
  session" and the store is unchanged. When it is at the current instant or after
  it, the call succeeds: the session returned is the one then stored, its roster is
  the old one without the user, and it is the old roster itself when the user was
  not on it.
\<close>

theorem leave_lock:
  "find (\<lambda>s. id_s s = sid) (SESSIONS db) = Some s \<and> sessionDate fb tz s = Some t \<longrightarrow>
     (t < now \<longrightarrow>
        leaveSession fb tz now db sid uid = (Inl (Error ''Cannot leave past session''), db)) \<and>
     (now \<le> t \<longrightarrow>
        (\<exists>s'. fst (leaveSession fb tz now db sid uid) = Inr s' \<and>
           find (\<lambda>s. id_s s = sid) (SESSIONS (snd (leaveSession fb tz now db sid uid))) = Some s' \<and>
           registeredPlayerIds s' = filter (\<lambda>i. i \<noteq> uid) (registeredPlayerIds s) \<and>
           uid \<notin> set (registeredPlayerIds s') \<and>
           (uid \<notin> set (registeredPlayerIds s) \<longrightarrow>
              registeredPlayerIds s' = registeredPlayerIds s)))"
proof (intro impI, elim conjE)
  assume f: "find (\<lambda>s. id_s s = sid) (SESSIONS db) = Some s" and d: "sessionDate fb tz s = Some t"
  have absent: "uid \<notin> set (registeredPlayerIds s) \<longrightarrow>
      filter (\<lambda>i. i \<noteq> uid) (registeredPlayerIds s) = registeredPlayerIds s"
    by (auto intro: filter_True)
  show "(t < now \<longrightarrow>
        leaveSession fb tz now db sid uid = (Inl (Error ''Cannot leave past session''), db)) \<and>
     (now \<le> t \<longrightarrow>
        (\<exists>s'. fst (leaveSession fb tz now db sid uid) = Inr s' \<and>
           find (\<lambda>s. id_s s = sid) (SESSIONS (snd (leaveSession fb tz now db sid uid))) = Some s' \<and>
           registeredPlayerIds s' = filter (\<lambda>i. i \<noteq> uid) (registeredPlayerIds s) \<and>
           uid \<notin> set (registeredPlayerIds s') \<and>
           (uid \<notin> set (registeredPlayerIds s) \<longrightarrow>
              registeredPlayerIds s' = registeredPlayerIds s)))"
  proof (intro conjI impI)
    assume "t < now"
    then show "leaveSession fb tz now db sid uid = (Inl (Error ''Cannot leave past session''), db)"
      by (simp add: leaveSession_Some [OF f] d num_lt_def)
  next
    assume "now \<le> t"
    then have n: "\<not> num_lt (sessionDate fb tz s) now"
      by (simp add: d num_lt_def)
    have "fst (leaveSession fb tz now db sid uid) = Inr (left uid s) \<and>
          find (\<lambda>s. id_s s = sid) (SESSIONS (snd (leaveSession fb tz now db sid uid))) = Some (left uid s) \<and>
          registeredPlayerIds (left uid s) = filter (\<lambda>i. i \<noteq> uid) (registeredPlayerIds s) \<and>
          uid \<notin> set (registeredPlayerIds (left uid s)) \<and>
          (uid \<notin> set (registeredPlayerIds s) \<longrightarrow>
              registeredPlayerIds (left uid s) = registeredPlayerIds s)"
      using leaveSession_stored [OF f n, of uid] absent
      by (simp add: left_def)
    then show "\<exists>s'. fst (leaveSession fb tz now db sid uid) = Inr s' \<and>
           find (\<lambda>s. id_s s = sid) (SESSIONS (snd (leaveSession fb tz now db sid uid))) = Some s' \<and>
           registeredPlayerIds s' = filter (\<lambda>i. i \<noteq> uid) (registeredPlayerIds s) \<and>
           uid \<notin> set (registeredPlayerIds s') \<and>
           (uid \<notin> set (registeredPlayerIds s) \<longrightarrow>
              registeredPlayerIds s' = registeredPlayerIds s)"
      by blast
  qed
qed

theorem leave_lock_witness:
  "(find (\<lambda>s. id_s s = ''s1'') (SESSIONS db_0) = Some s1_0 \<and>
    sessionDate fb_none tz_UTC s1_0 = Some 1704222000000) \<and>
   leaveSession fb_none tz_UTC 1704222000001 db_0 ''s1'' ''u1'' =
     (Inl (Error ''Cannot leave past session''), db_0) \<and>
   (\<exists>s'. fst (leaveSession fb_none tz_UTC 1704110400000 db_0 ''s1'' ''u1'') = Inr s' \<and>
      registeredPlayerIds s' = [''u2'', ''u3'', ''u4'', ''u5'']) \<and>
   (\<exists>s'. fst (leaveSession fb_none tz_UTC 1704110400000 db_0 ''s1'' ''u9'') = Inr s' \<and>
      registeredPlayerIds s' = [''u1'', ''u2'', ''u3'', ''u4'', ''u5''])"
proof -
  let ?s = "s1_0"
  have h: "find (\<lambda>s. id_s s = ''s1'') (SESSIONS db_0) = Some ?s \<and>
           sessionDate fb_none tz_UTC ?s = Some 1704222000000"
    by (simp add: sessionDate_s1) (simp add: db_0_def seed_defs)
  have r: "registeredPlayerIds ?s = [''u1'', ''u2'', ''u3'', ''u4'', ''u5'']"
    by (simp add: db_0_def seed_defs)
  note t = leave_lock [rule_format, OF h]
  have a: "leaveSession fb_none tz_UTC 1704222000001 db_0 ''s1'' ''u1'' =
     (Inl (Error ''Cannot leave past session''), db_0)"
    using t [of 1704222000001 "''u1''"] by simp
  have b: "\<exists>s'. fst (leaveSession fb_none tz_UTC 1704110400000 db_0 ''s1'' ''u1'') = Inr s' \<and>
      registeredPlayerIds s' = [''u2'', ''u3'', ''u4'', ''u5'']"
    using t [of 1704110400000 "''u1''"] by (auto simp: r)
  have c: "\<exists>s'. fst (leaveSession fb_none tz_UTC 1704110400000 db_0 ''s1'' ''u9'') = Inr s' \<and>
      registeredPlayerIds s' = [''u1'', ''u2'', ''u3'', ''u4'', ''u5'']"
    using t [of 1704110400000 "''u9''"] by (auto simp: r)
  from h a b c show ?thesis by simp
qed

subsection \<open>The calendar\<close>

























subsection \<open>Creating sessions\<close>

declare createSession_loop.simps [simp del]

lemma createSession_loop_done:
  "n \<le> i \<Longrightarrow> createSession_loop mk n i cs db = (Inr cs, db)"
  by (subst createSession_loop.simps) simp

lemma createSession_loop_throw:
  "i < n \<Longrightarrow> mk i = Inl e \<Longrightarrow> createSession_loop mk n i cs db = (Inl e, db)"
  by (subst createSession_loop.simps) simp
















lemma newSession_None:
  "newSession tz rnd cid data None i = Inl (RangeError ''Invalid time value'')"
  by (simp add: newSession_def getDate_def num_add_def setDate_def toISOString_def)



lemma createSession_no_date:
  assumes "(case date_opt data of None \<Rightarrow> None | Some s \<Rightarrow> Date_parse fb tz s) = None" and "1 \<le> n"
  shows "createSession fb tz rnd db cid data n = (Inl (RangeError ''Invalid time value''), db)"
proof -
  have "0 < n" using assms(2) by simp
  from createSession_loop_throw [OF this newSession_None] assms(1)
  show ?thesis by (simp add: createSession_def)
qed



text \<open>
  Where the offset changes between the base date and a later instance the two
  differ: one hour ahead of UTC, midnight UTC of 2024-03-25 is 01:00 local time;
  seven days later 01:00 local time is two hours ahead of UTC, which is 23:00 UTC of
  the day before, and the second session is dated 2024-03-31.
\<close>

lemma createSession_across_offset_change: "fst (createSession fb_none tz_DST rnd_0 db_0 ''c1'' data_march 2) = 
   Inr [made_session rnd_0 ''c1'' data_march 0 ''2024-03-25'', made_session rnd_0 ''c1'' data_march 1 ''2024-03-31'']"
  by code_simp

lemma createSession_loop_isl:
  "(\<forall>j. isl (mk j) = isl (mk' j)) \<Longrightarrow>
   isl (fst (createSession_loop mk n i cs db)) = isl (fst (createSession_loop mk' n i cs' db'))"
proof (induction mk n i cs db arbitrary: cs' db' rule: createSession_loop.induct)
  case (1 mk n i cs db)
  show ?case
  proof (cases "i < n")
    case False
    then show ?thesis by (simp add: createSession_loop_done)
  next
    case True
    show ?thesis
    proof (cases "mk i")
      case (Inl e)
      from "1.prems" have "isl (mk i) = isl (mk' i)" by blast
      then have "isl (mk' i)" by (simp add: Inl)
      then obtain e' where "mk' i = Inl e'"
        by (cases "mk' i") auto
      with Inl True show ?thesis
        by (simp add: createSession_loop_throw)
    next
      case (Inr s)
      from "1.prems" have "isl (mk i) = isl (mk' i)" by blast
      then have "\<not> isl (mk' i)" by (simp add: Inr)
      then obtain s' where s': "mk' i = Inr s'"
        by (cases "mk' i") auto
      have l: "createSession_loop mk n i cs db =
          createSession_loop mk n (i + 1) (cs @ [s]) (db\<lparr>SESSIONS := SESSIONS db @ [s]\<rparr>)"
        using True Inr by (subst createSession_loop.simps) simp
      have r: "createSession_loop mk' n i cs' db' =
          createSession_loop mk' n (i + 1) (cs' @ [s']) (db'\<lparr>SESSIONS := SESSIONS db' @ [s']\<rparr>)"
        using True s' by (subst createSession_loop.simps) simp
      from "1.IH" [OF True Inr "1.prems", of "cs' @ [s']" "db'\<lparr>SESSIONS := SESSIONS db' @ [s']\<rparr>"]
      show ?thesis
        by (simp only: l r)
    qed
  qed
qed

lemma newSession_isl:
  "isl (newSession tz rnd cid (data\<lparr>startTime_opt := st, endTime_opt := et\<rparr>) baseDate i) =
   isl (newSession tz rnd cid data baseDate i)"
  by (simp add: newSession_def Let_def split: option.splits)

lemma createSession_times_unchecked:
  "isl (fst (createSession fb tz rnd db cid (data\<lparr>startTime_opt := st, endTime_opt := et\<rparr>) n)) =
   isl (fst (createSession fb tz rnd db cid data n))"
  unfolding createSession_def Let_def
  by (simp, rule createSession_loop_isl) (simp add: newSession_isl)

text \<open>
  C7, as the specification states it, fails: a template with a date and neither of the two
  times is accepted, and the session created from it is stored with both times
  undefined.
\<close>

theorem createSession_unvalidated_counterexample:
  "startTime_opt data_no_times = None \<and> endTime_opt data_no_times = None \<and>
   createSession fb_none tz_UTC rnd_0 db_0 ''c1'' data_no_times 1 =
     (Inr [\<lparr>id_s = ''sk3j9x0q2a'', clubId_s = ''c1'', date = ''2024-01-01'',
            startTime = None, endTime = None, courtNumber = ''TBD'',
            maxPlayers = 8, registeredPlayerIds = [], status = OPEN\<rparr>],
      db_0\<lparr>SESSIONS := SESSIONS db_0 @
           [\<lparr>id_s = ''sk3j9x0q2a'', clubId_s = ''c1'', date = ''2024-01-01'',
             startTime = None, endTime = None, courtNumber = ''TBD'',
             maxPlayers = 8, registeredPlayerIds = [], status = OPEN\<rparr>]\<rparr>)"
  by code_simp

text \<open>
  C7, amended. \<^verbatim>\<open>createSession\<close> checks none of its fields. With the date missing, or
  a date string that the run time reads as an invalid date, and
  \<open>recurrenceWeeks \<ge> 1\<close>, the first iteration throws the RangeError "Invalid time
  value" of \<^verbatim>\<open>toISOString\<close> before anything is stored: the store is unchanged. With \<open>recurrenceWeeks \<le> 0\<close> the loop does not run
  and the call returns no session, whatever the template. Whether a call throws does
  not depend on \<open>startTime\<close> and \<open>endTime\<close>: a call throws with them exactly when it
  throws without them.
\<close>

theorem createSession_missing_date:
  "((date_opt data = None \<and> 1 \<le> n) \<longrightarrow>
      createSession fb tz rnd db cid data n = (Inl (RangeError ''Invalid time value''), db)) \<and>
   ((date_opt data = Some d \<and> Date_parse fb tz d = None \<and> 1 \<le> n) \<longrightarrow>
      createSession fb tz rnd db cid data n = (Inl (RangeError ''Invalid time value''), db)) \<and>
   (n \<le> 0 \<longrightarrow> createSession fb tz rnd db cid data n = (Inr [], db)) \<and>
   isl (fst (createSession fb tz rnd db cid (data\<lparr>startTime_opt := st, endTime_opt := et\<rparr>) n)) =
     isl (fst (createSession fb tz rnd db cid data n))"
  using createSession_times_unchecked [where fb = fb and tz = tz and rnd = rnd and db = db and cid = cid
      and data = data and st = st and et = et and n = n]
  by (simp add: createSession_no_date) (simp add: createSession_def createSession_loop_done)

theorem createSession_missing_date_witness:
  "(date_opt data_no_date = None \<and> (1::int) \<le> 3) \<and>
   createSession fb_none tz_UTC rnd_0 db_0 ''c1'' data_no_date 3 =
     (Inl (RangeError ''Invalid time value''), db_0) \<and>
   (date_opt data_empty_date = Some [] \<and> Date_parse fb_none tz_UTC [] = None \<and> (1::int) \<le> 1) \<and>
   createSession fb_none tz_UTC rnd_0 db_0 ''c1'' data_empty_date 1 =
     (Inl (RangeError ''Invalid time value''), db_0) \<and>
   createSession fb_none tz_UTC rnd_0 db_0 ''c1'' data_1 0 = (Inr [], db_0)"
proof -
  have h1: "date_opt data_no_date = None \<and> (1::int) \<le> 3"
    by (simp add: data_no_date_def)
  have h2: "date_opt data_empty_date = Some [] \<and> Date_parse fb_none tz_UTC [] = None \<and> (1::int) \<le> 1"
    by (simp add: data_empty_date_def Date_parse_def parseYMD_def clipped_def fb_none_def)
  have h3: "(0::int) \<le> 0" by simp
  from createSession_missing_date [THEN conjunct1, rule_format, OF h1]
       createSession_missing_date [THEN conjunct2, THEN conjunct1, rule_format, OF h2]
       createSession_missing_date [THEN conjunct2, THEN conjunct2, THEN conjunct1, rule_format, OF h3]
       h1 h2
  show ?thesis by simp
qed




end
